theory Spec2Isabelle
  imports Complex_Main "HOL-Library.Word" "HOL-Library.Log_Nat"
begin

section \<open>JavaScript values used by the components\<close>

text \<open>
  A JavaScript string is a sequence of UTF-16 code units. String literals of the source
  are ASCII and are written \<open>js ''...''\<close>.
\<close>

type_synonym js_string = "16 word list"

definition js :: "string \<Rightarrow> js_string" where
  "js s = map of_char s"

text \<open>A string is falsy exactly when it is empty (\<^verbatim>\<open>!s\<close>, \<^verbatim>\<open>s ? a : b\<close>, \<^verbatim>\<open>s && x\<close>).\<close>

definition truthy :: "js_string \<Rightarrow> bool" where
  "truthy s = (s \<noteq> [])"

text \<open>
  \<^verbatim>\<open>String.prototype.trim\<close> strips the code units that ECMAScript calls WhiteSpace or
  LineTerminator from both ends: TAB, LF, VT, FF, CR, SP, NBSP, U+1680, U+2000..U+200A,
  U+2028, U+2029, U+202F, U+205F, U+3000 and U+FEFF.
\<close>

definition isWhiteSpace :: "16 word \<Rightarrow> bool" where
  "isWhiteSpace c =
     (c \<in> set [0x9, 0xA, 0xB, 0xC, 0xD, 0x20, 0xA0, 0x1680, 0x2028, 0x2029,
                0x202F, 0x205F, 0x3000, 0xFEFF]
      \<or> (0x2000 \<le> c \<and> c \<le> 0x200A))"

definition trim :: "js_string \<Rightarrow> js_string" where
  "trim s = rev (dropWhile isWhiteSpace (rev (dropWhile isWhiteSpace s)))"

text \<open>\<^verbatim>\<open>String.prototype.includes\<close>: the pattern occurs as a contiguous run.\<close>

fun str_includes :: "js_string \<Rightarrow> js_string \<Rightarrow> bool" where
  "str_includes [] p = (p = [])"
| "str_includes (c # s) p = (take (length p) (c # s) = p \<or> str_includes s p)"

text \<open>
  A thrown value is an instance of \<^verbatim>\<open>Error\<close> (or of a subclass, as the HTTP client's
  errors are) carrying its message, or some other value: the promise of
  \<^verbatim>\<open>fileToBase64\<close> rejects with the reader's progress event, which is no \<^verbatim>\<open>Error\<close>.
\<close>

datatype js_thrown = Error js_string | Thrown_other

text \<open>
  An awaited promise resolves, rejects, or never settles. A task is what an asynchronous
  call does: the effects it performs, in order, and how its promise settles.
\<close>

datatype 'a promise = Resolved 'a | Rejected js_thrown | Pending

section \<open>Files, notifications, requests\<close>

record File =
  file_name :: js_string
  file_size :: nat
  file_type :: js_string
  file_bytes :: "8 word list"

record toast_props =
  title :: js_string
  description :: js_string
  variant :: "js_string option"

datatype http_verb = GET | POST

datatype body = GenerateBody js_string "js_string option" | AnalyzeBody js_string

record axios_config =
  baseURL :: js_string
  headers :: "(js_string \<times> js_string) list"

record request =
  config :: axios_config
  verb :: http_verb
  url :: js_string
  payload :: "body option"

text \<open>
  The observable effects of a handler, in the order they happen: a notification, a
  request handed to the HTTP client, a file handed to the \<^verbatim>\<open>FileReader\<close>, a line on
  the console.
\<close>

datatype effect =
    Toast toast_props
  | Request request
  | ReadAsDataURL File
  | ConsoleError js_string js_thrown

type_synonym 'a task = "effect list \<times> 'a promise"

definition await :: "'a task \<Rightarrow> ('a \<Rightarrow> 'b task) \<Rightarrow> 'b task" where
  "await t k =
     (case t of
        (es, Resolved x) \<Rightarrow> (case k x of (es', r) \<Rightarrow> (es @ es', r))
      | (es, Rejected e) \<Rightarrow> (es, Rejected e)
      | (es, Pending) \<Rightarrow> (es, Pending))"

section \<open>The HTTP client adapter (Frontend/lib/api.ts)\<close>

text \<open>
  The data of a resolved \<^verbatim>\<open>generate\<close> call. The interface \<^verbatim>\<open>GenerateResponse\<close> declares
  it as \<^verbatim>\<open>{content: string, image_url: string | null}\<close>, but the body is not checked at
  run time. Besides a body of the declared shape, the data can be a value that has no
  \<^verbatim>\<open>content\<close> property (kept with its \<^verbatim>\<open>image_url\<close>), or \<^verbatim>\<open>null\<close> or \<^verbatim>\<open>undefined\<close>;
  reading a property of the latter throws a \<^verbatim>\<open>TypeError\<close>, whose message depends on
  the JavaScript engine and is kept with it. For \<^verbatim>\<open>image_url\<close>, \<open>None\<close> stands for
  \<^verbatim>\<open>null\<close> and for a missing property alike. Properties of other types are not modelled.
\<close>

datatype GenerateResponse =
    GenerateResponse js_string "js_string option"
  | Without_content "js_string option"
  | Null_body js_string

datatype TrendsResponse = TrendsResponse "js_string list"

text \<open>
  The network and the backend behind it are a parameter: what the awaited call of the
  HTTP client settles to for a request. A resolved call carries the response's
  \<^verbatim>\<open>data\<close>.
\<close>

type_synonym 'r transport = "request \<Rightarrow> 'r promise"

definition API_BASE_URL :: js_string where
  "API_BASE_URL = js ''http://localhost:8000''"

definition api :: axios_config where
  "api = \<lparr>baseURL = API_BASE_URL,
          headers = [(js ''Content-Type'', js ''application/json'')]\<rparr>"

definition api_post :: "axios_config \<Rightarrow> 'r transport \<Rightarrow> js_string \<Rightarrow> body \<Rightarrow> 'r task" where
  "api_post cfg net path d =
     (let r = \<lparr>config = cfg, verb = POST, url = path, payload = Some d\<rparr>
      in ([Request r], net r))"

definition api_get :: "axios_config \<Rightarrow> 'r transport \<Rightarrow> js_string \<Rightarrow> 'r task" where
  "api_get cfg net path =
     (let r = \<lparr>config = cfg, verb = GET, url = path, payload = None\<rparr>
      in ([Request r], net r))"

definition contentApi_generate ::
  "GenerateResponse transport \<Rightarrow> js_string \<Rightarrow> js_string option \<Rightarrow> GenerateResponse task" where
  "contentApi_generate net prompt file =
     api_post api net (js ''/api/v1/content/generate'') (GenerateBody prompt file)"

definition trendsApi_getTrends :: "TrendsResponse transport \<Rightarrow> TrendsResponse task" where
  "trendsApi_getTrends net = api_get api net (js ''/api/v1/trends'')"

section \<open>The generation view (ContentGenerator)\<close>

text \<open>Each of the three views has a loading flag of its own.\<close>

record loadable =
  isLoading :: bool

text \<open>
  The state of the view. \<^verbatim>\<open>generatedContent\<close> starts as the empty string; it is
  \<open>None\<close> when the view has stored \<^verbatim>\<open>undefined\<close>, the content of a response that has
  none.
\<close>

record ContentGenerator = loadable +
  prompt :: js_string
  "file" :: "File option"
  generatedContent :: "js_string option"
  imageUrl :: "js_string option"

definition ContentGenerator_init :: ContentGenerator where
  "ContentGenerator_init =
     \<lparr>isLoading = False, prompt = [], file = None, generatedContent = Some [],
      imageUrl = None\<rparr>"

definition allowedTypes :: "js_string list" where
  "allowedTypes = [js ''text/csv'', js ''application/pdf'', js ''application/vnd.ms-excel'']"

text \<open>\<^verbatim>\<open>event.target.files?.[0]\<close>: the first file of the input's list, if there is one.\<close>

definition selectedFile :: "File list option \<Rightarrow> File option" where
  "selectedFile files =
     (case files of None \<Rightarrow> None | Some [] \<Rightarrow> None | Some (f # _) \<Rightarrow> Some f)"

definition handleFileUpload ::
  "File list option \<Rightarrow> ContentGenerator \<Rightarrow> ContentGenerator \<times> effect list" where
  "handleFileUpload files s =
     (case selectedFile files of
        None \<Rightarrow> (s, [])
      | Some f \<Rightarrow>
          if file_size f > 5 * 1024 * 1024 then
            (s, [Toast \<lparr>title = js ''File too large'',
                        description = js ''Please select a file smaller than 5MB'',
                        variant = Some (js ''destructive'')\<rparr>])
          else if file_type f \<notin> set allowedTypes then
            (s, [Toast \<lparr>title = js ''Invalid file type'',
                        description = js ''Please select a CSV or PDF file'',
                        variant = Some (js ''destructive'')\<rparr>])
          else (s\<lparr>file := Some f\<rparr>, []))"

text \<open>
  \<^verbatim>\<open>fileToBase64\<close> hands the file to a \<^verbatim>\<open>FileReader\<close> and settles with what the
  reader reports: \<^verbatim>\<open>onload\<close> resolves with \<^verbatim>\<open>reader.result\<close>, \<^verbatim>\<open>onerror\<close> rejects with
  the event, and a reader that reports neither leaves the promise pending. The reader is
  a parameter.
\<close>

datatype reader_event = Load js_string | Failed | Silent

definition fileToBase64 :: "(File \<Rightarrow> reader_event) \<Rightarrow> File \<Rightarrow> js_string task" where
  "fileToBase64 reader f =
     ([ReadAsDataURL f],
      case reader f of
        Load result \<Rightarrow> Resolved result
      | Failed \<Rightarrow> Rejected Thrown_other
      | Silent \<Rightarrow> Pending)"

definition isNetworkError :: "js_thrown \<Rightarrow> bool" where
  "isNetworkError error =
     (case error of
        Error message \<Rightarrow>
          message = js ''Network Error'' \<or> str_includes message (js ''ECONNREFUSED'')
      | Thrown_other \<Rightarrow> False)"

definition cannot_connect :: js_string where
  "cannot_connect =
     js ''Cannot connect to backend. Make sure FastAPI server is running on localhost:8000''"

definition generic_failure :: js_string where
  "generic_failure = js ''Failed to generate content. Please try again.''"

text \<open>
  The two awaited steps of the \<^verbatim>\<open>try\<close> block: the file, if one is stored, is encoded
  first, and the request is made with the result; a step that rejects or never settles
  ends the attempt there.
\<close>

definition generate_attempt ::
  "(File \<Rightarrow> reader_event) \<Rightarrow> GenerateResponse transport \<Rightarrow> ContentGenerator
     \<Rightarrow> GenerateResponse task" where
  "generate_attempt reader net s =
     (let fileData =
            (case file s of
               Some f \<Rightarrow> await (fileToBase64 reader f) (\<lambda>d. ([], Resolved (Some d)))
             | None \<Rightarrow> ([], Resolved None))
      in await fileData (\<lambda>d. contentApi_generate net (prompt s) d))"

definition handleGenerate ::
  "(File \<Rightarrow> reader_event) \<Rightarrow> GenerateResponse transport \<Rightarrow> ContentGenerator
     \<Rightarrow> ContentGenerator \<times> effect list" where
  "handleGenerate reader net s =
     (if \<not> truthy (trim (prompt s)) then
        (s, [Toast \<lparr>title = js ''Prompt required'',
                    description = js ''Please enter a prompt to generate content'',
                    variant = Some (js ''destructive'')\<rparr>])
      else
        let s1 = s\<lparr>isLoading := True\<rparr>
        in case generate_attempt reader net s of
             (es, Resolved (GenerateResponse c u)) \<Rightarrow>
               (s1\<lparr>generatedContent := Some c, imageUrl := u, isLoading := False\<rparr>,
                es @ [Toast \<lparr>title = js ''Content generated successfully'',
                             description = js ''Your marketing content has been created'',
                             variant = None\<rparr>])
           | (es, Resolved (Without_content u)) \<Rightarrow>
               (s1\<lparr>generatedContent := None, imageUrl := u, isLoading := False\<rparr>,
                es @ [Toast \<lparr>title = js ''Content generated successfully'',
                             description = js ''Your marketing content has been created'',
                             variant = None\<rparr>])
           | (es, Resolved (Null_body message)) \<Rightarrow>
               (s1\<lparr>isLoading := False\<rparr>,
                es @ [ConsoleError (js ''[v0] Content generation error:'') (Error message),
                      Toast \<lparr>title = js ''Generation failed'',
                             description =
                               (if isNetworkError (Error message) then cannot_connect
                                else generic_failure),
                             variant = Some (js ''destructive'')\<rparr>])
           | (es, Rejected error) \<Rightarrow>
               (s1\<lparr>isLoading := False\<rparr>,
                es @ [ConsoleError (js ''[v0] Content generation error:'') error,
                      Toast \<lparr>title = js ''Generation failed'',
                             description =
                               (if isNetworkError error then cannot_connect
                                else generic_failure),
                             variant = Some (js ''destructive'')\<rparr>])
           | (es, Pending) \<Rightarrow> (s1, es))"

text \<open>
  The result card: a spinner while loading, else the generated text with its optional
  image, else the placeholder line. The image's \<^verbatim>\<open>onError\<close> handler sets its
  \<^verbatim>\<open>style.display\<close>.
\<close>

datatype 'a panel = Spinner | Shown 'a | Placeholder

record img =
  src :: js_string
  alt :: js_string
  display :: "js_string option"

definition img_onError :: "img \<Rightarrow> img" where
  "img_onError i = i\<lparr>display := Some (js ''none'')\<rparr>"

definition render_generated :: "ContentGenerator \<Rightarrow> (js_string \<times> img option) panel" where
  "render_generated s =
     (if isLoading s then Spinner
      else
        case generatedContent s of
          None \<Rightarrow> Placeholder
        | Some c \<Rightarrow>
            if truthy c then
              Shown (c,
                     case imageUrl s of
                       None \<Rightarrow> None
                     | Some u \<Rightarrow>
                         if truthy u then
                           Some \<lparr>src = (if truthy u then u else js ''/placeholder.svg''),
                                 alt = js ''Generated content visual'',
                                 display = None\<rparr>
                         else None)
            else Placeholder)"

text \<open>
  The user's events on the view. The Generate button is disabled while loading; the
  reader and the network of a click are whatever the browser and the backend do then.
  A handler is run to its end at the click: what it does after an \<^verbatim>\<open>await\<close> writes the
  result fields and the loading flag only and reads nothing of the state, so an edit of
  the prompt or of the file in between would not change what it writes.
\<close>

datatype generator_event =
    ChangePrompt js_string
  | SelectFiles "File list option"
  | RemoveFile
  | ClickGenerate "File \<Rightarrow> reader_event" "GenerateResponse transport"

fun dispatch :: "generator_event \<Rightarrow> ContentGenerator \<Rightarrow> ContentGenerator \<times> effect list" where
  "dispatch (ChangePrompt p) s = (s\<lparr>prompt := p\<rparr>, [])"
| "dispatch (SelectFiles files) s = handleFileUpload files s"
| "dispatch RemoveFile s = (s\<lparr>file := None\<rparr>, [])"
| "dispatch (ClickGenerate reader net) s =
     (if isLoading s then (s, []) else handleGenerate reader net s)"

fun run :: "generator_event list \<Rightarrow> ContentGenerator \<times> effect list
              \<Rightarrow> ContentGenerator \<times> effect list" where
  "run [] w = w"
| "run (e # evs) (s, es) = (case dispatch e s of (s', es') \<Rightarrow> run evs (s', es @ es'))"

text \<open>The two checks of the handler, as one predicate on a file.\<close>

definition accepted :: "File \<Rightarrow> bool" where
  "accepted f = (file_size f \<le> 5 * 1024 * 1024 \<and> file_type f \<in> set allowedTypes)"

section \<open>The trends view (TrendsViewer)\<close>

text \<open>\<^verbatim>\<open>String(n)\<close> for an array length: its decimal digits.\<close>

fun decimal :: "nat \<Rightarrow> js_string" where
  "decimal n =
     (if n < 10 then [of_nat (48 + n)]
      else decimal (n div 10) @ [of_nat (48 + n mod 10)])"

record TrendsViewer = loadable +
  trends :: "js_string list"

definition TrendsViewer_init :: TrendsViewer where
  "TrendsViewer_init = \<lparr>isLoading = False, trends = []\<rparr>"

definition fetchTrends ::
  "TrendsResponse transport \<Rightarrow> TrendsViewer \<Rightarrow> TrendsViewer \<times> effect list" where
  "fetchTrends net s =
     (let s1 = s\<lparr>isLoading := True\<rparr>
      in case trendsApi_getTrends net of
           (es, Resolved (TrendsResponse ts)) \<Rightarrow>
             (s1\<lparr>trends := ts, isLoading := False\<rparr>,
              es @ [Toast \<lparr>title = js ''Trends updated'',
                           description =
                             js ''Loaded '' @ decimal (length ts) @ js '' marketing trends'',
                           variant = None\<rparr>])
         | (es, Rejected error) \<Rightarrow>
             (s1\<lparr>isLoading := False\<rparr>,
              es @ [ConsoleError (js ''[v0] Trends fetch error:'') error,
                    Toast \<lparr>title = js ''Failed to fetch trends'',
                           description =
                             js ''Unable to load marketing trends. Please try again.'',
                           variant = Some (js ''destructive'')\<rparr>])
         | (es, Pending) \<Rightarrow> (s1, es))"

text \<open>
  Below the refresh button: the spinner while loading, else a grid with one card per
  trend (keyed by its index, titled by the trend), else the no-trends placeholder.
\<close>

record card =
  card_key :: nat
  card_title :: js_string
  card_body :: js_string

definition render_trends :: "TrendsViewer \<Rightarrow> card list panel" where
  "render_trends s =
     (if isLoading s then Spinner
      else if length (trends s) > 0 then
        Shown (map (\<lambda>(index, trend).
                     \<lparr>card_key = index, card_title = trend,
                      card_body = js ''Trending in marketing and content creation''\<rparr>)
                   (enumerate 0 (trends s)))
      else Placeholder)"

section \<open>Numbers\<close>

text \<open>
  A JavaScript number is an IEEE 754 binary64 value. The finite ones are modelled by the
  rational they denote (the sign of a zero is not kept), and every arithmetic result is
  rounded to the nearest binary64 value, ties to even: 53 significant bits, exponents
  down to the subnormal spacing \<open>2\<^sup>-\<^sup>1\<^sup>0\<^sup>7\<^sup>4\<close>, and infinity from \<open>2\<^sup>1\<^sup>0\<^sup>2\<^sup>4\<close> on.
\<close>

datatype number = Fin rat | PosInf | NegInf | NaN

definition pow2 :: "int \<Rightarrow> rat" where
  "pow2 e = (if 0 \<le> e then 2 ^ nat e else 1 / 2 ^ nat (- e))"

text \<open>For \<open>x > 0\<close>, the exponent \<open>k\<close> with \<open>2\<^sup>k \<le> x < 2\<^sup>k\<^sup>+\<^sup>1\<close>.\<close>

definition ilog2 :: "rat \<Rightarrow> int" where
  "ilog2 x =
     (case quotient_of x of
        (p, q) \<Rightarrow> let d = bitlen p - bitlen q in if pow2 d \<le> x then d else d - 1)"

definition round_even :: "rat \<Rightarrow> int" where
  "round_even x =
     (let n = \<lfloor>x\<rfloor>; r = x - of_int n
      in if r < 1 / 2 then n
         else if 1 / 2 < r then n + 1
         else if even n then n else n + 1)"

definition round64 :: "rat \<Rightarrow> number" where
  "round64 x =
     (if x = 0 then Fin 0
      else
        let a = \<bar>x\<bar>;
            e = max (ilog2 a - 52) (- 1074);
            r = of_int (round_even (a / pow2 e)) * pow2 e
        in if 1024 \<le> ilog2 r then (if 0 < x then PosInf else NegInf)
           else Fin (if 0 < x then r else - r))"

fun num_neg :: "number \<Rightarrow> number" where
  "num_neg (Fin a) = Fin (- a)"
| "num_neg PosInf = NegInf"
| "num_neg NegInf = PosInf"
| "num_neg NaN = NaN"

fun num_add :: "number \<Rightarrow> number \<Rightarrow> number" where
  "num_add (Fin a) (Fin b) = round64 (a + b)"
| "num_add NaN _ = NaN"
| "num_add _ NaN = NaN"
| "num_add PosInf NegInf = NaN"
| "num_add NegInf PosInf = NaN"
| "num_add PosInf _ = PosInf"
| "num_add _ PosInf = PosInf"
| "num_add NegInf _ = NegInf"
| "num_add _ NegInf = NegInf"

fun num_div :: "number \<Rightarrow> number \<Rightarrow> number" where
  "num_div (Fin a) (Fin b) =
     (if b = 0 then (if a = 0 then NaN else if 0 < a then PosInf else NegInf)
      else round64 (a / b))"
| "num_div NaN _ = NaN"
| "num_div _ NaN = NaN"
| "num_div (Fin a) _ = Fin 0"
| "num_div x (Fin b) = (if 0 \<le> b then x else num_neg x)"
| "num_div _ _ = NaN"

fun num_mul :: "number \<Rightarrow> number \<Rightarrow> number" where
  "num_mul (Fin a) (Fin b) = round64 (a * b)"
| "num_mul NaN _ = NaN"
| "num_mul _ NaN = NaN"
| "num_mul (Fin a) y = (if a = 0 then NaN else if 0 < a then y else num_neg y)"
| "num_mul x (Fin b) = (if b = 0 then NaN else if 0 < b then x else num_neg x)"
| "num_mul PosInf y = y"
| "num_mul NegInf y = num_neg y"

section \<open>The sentiment view (SentimentAnalyzer)\<close>

datatype AnalyzeResponse = AnalyzeResponse number js_string

definition analysisApi_analyze ::
  "AnalyzeResponse transport \<Rightarrow> js_string \<Rightarrow> AnalyzeResponse task" where
  "analysisApi_analyze net content =
     api_post api net (js ''/api/v1/analysis'') (AnalyzeBody content)"

record SentimentAnalyzer = loadable +
  content :: js_string
  sentiment :: "number option"
  sentimentLabel :: "js_string option"

definition SentimentAnalyzer_init :: SentimentAnalyzer where
  "SentimentAnalyzer_init =
     \<lparr>isLoading = False, content = [], sentiment = None, sentimentLabel = None\<rparr>"

definition handleAnalyze ::
  "AnalyzeResponse transport \<Rightarrow> SentimentAnalyzer \<Rightarrow> SentimentAnalyzer \<times> effect list" where
  "handleAnalyze net s =
     (if \<not> truthy (trim (content s)) then
        (s, [Toast \<lparr>title = js ''Content required'',
                    description = js ''Please enter content to analyze'',
                    variant = Some (js ''destructive'')\<rparr>])
      else
        let s1 = s\<lparr>isLoading := True\<rparr>
        in case analysisApi_analyze net (content s) of
             (es, Resolved (AnalyzeResponse score label)) \<Rightarrow>
               (s1\<lparr>sentiment := Some score, sentimentLabel := Some label,
                   isLoading := False\<rparr>,
                es @ [Toast \<lparr>title = js ''Analysis complete'',
                             description = js ''Content sentiment: '' @ label,
                             variant = None\<rparr>])
           | (es, Rejected error) \<Rightarrow>
               (s1\<lparr>isLoading := False\<rparr>,
                es @ [ConsoleError (js ''[v0] Sentiment analysis error:'') error,
                      Toast \<lparr>title = js ''Analysis failed'',
                             description =
                               js ''Failed to analyze sentiment. Please try again.'',
                             variant = Some (js ''destructive'')\<rparr>])
           | (es, Pending) \<Rightarrow> (s1, es))"

definition getSentimentColor :: "js_string option \<Rightarrow> js_string" where
  "getSentimentColor label =
     (if label = Some (js ''positive'') then js ''bg-green-500 text-white''
      else if label = Some (js ''negative'') then js ''bg-red-500 text-white''
      else if label = Some (js ''neutral'') then js ''bg-gray-500 text-white''
      else js ''bg-gray-500 text-white'')"

definition getSentimentProgress :: "number option \<Rightarrow> number" where
  "getSentimentProgress score =
     (case score of
        None \<Rightarrow> Fin 50
      | Some sc \<Rightarrow> num_mul (num_div (num_add sc (Fin 1)) (Fin 2)) (Fin 100))"

text \<open>
  The result card: the spinner while loading, else, when a score is stored and the label
  is a non-empty string, the badge and the gauge, else the placeholder. Of the gauge the
  model keeps the bar's colour and its width in percent; the formatted texts
  (\<^verbatim>\<open>toFixed\<close>, the capitalised label) are not modelled.
\<close>

record gauge =
  badge_color :: js_string
  bar_color :: js_string
  bar_width :: number

definition render_analysis :: "SentimentAnalyzer \<Rightarrow> gauge panel" where
  "render_analysis s =
     (if isLoading s then Spinner
      else
        case (sentiment s, sentimentLabel s) of
          (Some sc, Some label) \<Rightarrow>
            if truthy label then
              Shown \<lparr>badge_color = getSentimentColor (Some label),
                     bar_color =
                       (if label = js ''positive'' then js ''bg-green-500''
                        else if label = js ''negative'' then js ''bg-red-500''
                        else js ''bg-gray-500''),
                     bar_width = getSentimentProgress (Some sc)\<rparr>
            else Placeholder
        | _ \<Rightarrow> Placeholder)"

section \<open>The adapter that reads the environment (the variant with \<^verbatim>\<open>generate\<close> only)\<close>

type_synonym process_env = "js_string \<rightharpoonup> js_string"

text \<open>\<^verbatim>\<open>process.env.NEXT_PUBLIC_API_BASE_URL ?? "http://localhost:8000"\<close>\<close>

definition API_BASE_URL_env :: "process_env \<Rightarrow> js_string" where
  "API_BASE_URL_env env =
     (case env (js ''NEXT_PUBLIC_API_BASE_URL'') of
        None \<Rightarrow> js ''http://localhost:8000''
      | Some v \<Rightarrow> v)"

definition api_env :: "process_env \<Rightarrow> axios_config" where
  "api_env env = \<lparr>baseURL = API_BASE_URL_env env,
                  headers = [(js ''Content-Type'', js ''application/json'')]\<rparr>"

definition contentApi_generate_env ::
  "process_env \<Rightarrow> GenerateResponse transport \<Rightarrow> js_string \<Rightarrow> js_string option
     \<Rightarrow> GenerateResponse task" where
  "contentApi_generate_env env net p f =
     api_post (api_env env) net (js ''/api/v1/content/generate'') (GenerateBody p f)"

section \<open>The base64 data URL of a file and its decoding\<close>

text \<open>
  Modelled from the spec: the base64 alphabet of the "base64 data-URL string". Neither
  the browser's \<^verbatim>\<open>FileReader\<close>, which produces the string, nor the backend, which
  decodes it, is among the source files. The alphabet is the one of RFC 4648:
  \<^verbatim>\<open>A-Z\<close>, \<^verbatim>\<open>a-z\<close>, \<^verbatim>\<open>0-9\<close>, \<^verbatim>\<open>+\<close> and \<^verbatim>\<open>/\<close>, with \<^verbatim>\<open>=\<close> (61) as padding.
\<close>

definition b64_char :: "nat \<Rightarrow> 16 word" where
  "b64_char n =
     (if n < 26 then of_nat (65 + n)
      else if n < 52 then of_nat (97 + (n - 26))
      else if n < 62 then of_nat (48 + (n - 52))
      else if n = 62 then 43 else 47)"

definition b64_value :: "16 word \<Rightarrow> nat option" where
  "b64_value c =
     (let k = unat c
      in if 65 \<le> k \<and> k \<le> 90 then Some (k - 65)
         else if 97 \<le> k \<and> k \<le> 122 then Some (k - 97 + 26)
         else if 48 \<le> k \<and> k \<le> 57 then Some (k - 48 + 52)
         else if k = 43 then Some 62
         else if k = 47 then Some 63
         else None)"

text \<open>
  Modelled from the spec: the base64 text of a byte sequence (the encoding half of the
  "base64 data-URL fidelity"; the browser's encoder is not among the source files).
  Three bytes give four characters; a last group of one or two bytes is padded.
\<close>

fun base64_encode :: "8 word list \<Rightarrow> js_string" where
  "base64_encode (a # b # c # rest) =
     (let x = unat a; y = unat b; z = unat c
      in [b64_char (x div 4), b64_char ((x mod 4) * 16 + y div 16),
          b64_char ((y mod 16) * 4 + z div 64), b64_char (z mod 64)]
         @ base64_encode rest)"
| "base64_encode [a, b] =
     (let x = unat a; y = unat b
      in [b64_char (x div 4), b64_char ((x mod 4) * 16 + y div 16),
          b64_char ((y mod 16) * 4), 61])"
| "base64_encode [a] =
     (let x = unat a in [b64_char (x div 4), b64_char ((x mod 4) * 16), 61, 61])"
| "base64_encode [] = []"

text \<open>
  Modelled from the spec: "decoding the produced string" (the backend's decoder is not
  among the source files). Four characters give three bytes; padding is accepted in the
  last group only, and a character outside the alphabet or a length that is no multiple
  of four gives no result.
\<close>

fun base64_decode :: "js_string \<Rightarrow> 8 word list option" where
  "base64_decode [] = Some []"
| "base64_decode (p # q # r # s # rest) =
     (case (b64_value p, b64_value q) of
        (Some x, Some y) \<Rightarrow>
          if rest = [] \<and> r = 61 \<and> s = 61 then Some [of_nat (x * 4 + y div 16)]
          else
            (case b64_value r of
               None \<Rightarrow> None
             | Some z \<Rightarrow>
                 if rest = [] \<and> s = 61 then
                   Some [of_nat (x * 4 + y div 16), of_nat ((y mod 16) * 16 + z div 4)]
                 else
                   (case b64_value s of
                      None \<Rightarrow> None
                    | Some w \<Rightarrow>
                        map_option
                          (\<lambda>bs. of_nat (x * 4 + y div 16) #
                                of_nat ((y mod 16) * 16 + z div 4) #
                                of_nat ((z mod 4) * 64 + w) # bs)
                          (base64_decode rest)))
      | _ \<Rightarrow> None)"
| "base64_decode _ = None"

text \<open>
  Modelled from the spec: what \<^verbatim>\<open>FileReader.readAsDataURL\<close> (the browser's, not among the
  source files) reports for a file that it reads without error, "a single base64
  data-URL string": \<^verbatim>\<open>data:\<close>, the file's type, \<^verbatim>\<open>;base64,\<close> and the base64 text of the
  file's bytes.
\<close>

definition readAsDataURL :: "File \<Rightarrow> reader_event" where
  "readAsDataURL f =
     Load (js ''data:'' @ file_type f @ js '';base64,'' @ base64_encode (file_bytes f))"

text \<open>
  Modelled from the spec: the decoding of a data URL (the backend's, not among the source
  files): of a string that starts with \<^verbatim>\<open>data:\<close> and whose header, up to the first comma,
  ends in \<^verbatim>\<open>;base64\<close>, the base64 text after that comma is decoded.
\<close>

definition decode_data_url :: "js_string \<Rightarrow> 8 word list option" where
  "decode_data_url s =
     (if take 5 s = js ''data:'' then
        let rest = drop 5 s; header = takeWhile (\<lambda>c. c \<noteq> 44) rest
        in case dropWhile (\<lambda>c. c \<noteq> 44) rest of
             [] \<Rightarrow> None
           | _ # data \<Rightarrow>
               if drop (length header - 7) header = js '';base64'' then base64_decode data
               else None
      else None)"

text \<open>A rational that is a binary64 value: rounding leaves it as it is.\<close>

definition is_double :: "rat \<Rightarrow> bool" where
  "is_double x = (round64 x = Fin x)"

section \<open>Reading an effect trace\<close>

fun requests :: "effect list \<Rightarrow> request list" where
  "requests [] = []"
| "requests (Request r # es) = r # requests es"
| "requests (_ # es) = requests es"

fun toasts :: "effect list \<Rightarrow> toast_props list" where
  "toasts [] = []"
| "toasts (Toast t # es) = t # toasts es"
| "toasts (_ # es) = toasts es"

fun encoded :: "effect list \<Rightarrow> File list" where
  "encoded [] = []"
| "encoded (ReadAsDataURL f # es) = f # encoded es"
| "encoded (_ # es) = encoded es"

text \<open>A string that is empty or holds white space only.\<close>

definition blank :: "js_string \<Rightarrow> bool" where
  "blank s = list_all isWhiteSpace s"

section \<open>Example inputs\<close>

definition csv_file :: File where
  "csv_file = \<lparr>file_name = js ''leads.csv'', file_size = 3, file_type = js ''text/csv'',
               file_bytes = [0x61, 0x2C, 0x62]\<rparr>"

definition png_file :: File where
  "png_file = \<lparr>file_name = js ''logo.png'', file_size = 4, file_type = js ''image/png'',
               file_bytes = [0x89, 0x50, 0x4E, 0x47]\<rparr>"

definition big_file :: File where
  "big_file = \<lparr>file_name = js ''report.pdf'', file_size = 5 * 1024 * 1024 + 1,
               file_type = js ''application/pdf'',
               file_bytes = replicate (5 * 1024 * 1024 + 1) 0\<rparr>"

text \<open>What a rendered result card shows.\<close>

fun shown_text :: "(js_string \<times> img option) panel \<Rightarrow> js_string option" where
  "shown_text (Shown (c, i)) = Some c"
| "shown_text _ = None"

fun shown_image :: "(js_string \<times> img option) panel \<Rightarrow> img option" where
  "shown_image (Shown (c, i)) = i"
| "shown_image _ = None"

text \<open>The stored file, if there is one, passed both checks.\<close>

definition file_ok :: "ContentGenerator \<Rightarrow> bool" where
  "file_ok s = (case file s of None \<Rightarrow> True | Some g \<Rightarrow> accepted g)"

section \<open>Selecting a file\<close>

lemma accepted_csv: "accepted csv_file"
  by (simp add: accepted_def csv_file_def allowedTypes_def js_def)

lemma not_accepted_png: "\<not> accepted png_file"
  by (simp add: accepted_def png_file_def allowedTypes_def js_def)

lemma not_accepted_big: "\<not> accepted big_file"
  by (simp add: accepted_def big_file_def)

lemma handleFileUpload_accepted:
  "accepted f \<Longrightarrow> handleFileUpload (Some (f # fs)) s = (s\<lparr>file := Some f\<rparr>, [])"
  by (simp add: handleFileUpload_def selectedFile_def accepted_def)

lemma handleFileUpload_rejected_state:
  "\<not> accepted f \<Longrightarrow> fst (handleFileUpload (Some (f # fs)) s) = s"
  by (simp add: handleFileUpload_def selectedFile_def accepted_def)

lemma handleFileUpload_file_cases:
  "file (fst (handleFileUpload files s)) = file s \<or>
   (\<exists>f fs. files = Some (f # fs) \<and> accepted f \<and> file (fst (handleFileUpload files s)) = Some f)"
  by (auto simp: handleFileUpload_def selectedFile_def accepted_def
           split: option.splits list.splits)

text \<open>
  C10. A selection whose first file violates the size or the type constraint leaves the
  whole view state, and with it the stored file, as it was: a file selected before is
  neither cleared nor replaced. The stored file changes only when the selected file
  passes both checks, and then it is that file.
\<close>

theorem C10_invalid_selection_keeps_file:
  "(\<not> accepted f \<longrightarrow>
      fst (handleFileUpload (Some (f # fs)) s) = s \<and>
      file (fst (handleFileUpload (Some (f # fs)) s)) = file s) \<and>
   (accepted f \<longrightarrow> file (fst (handleFileUpload (Some (f # fs)) s)) = Some f) \<and>
   (file (fst (handleFileUpload files s)) \<noteq> file s \<longrightarrow>
      (\<exists>g gs. files = Some (g # gs) \<and> accepted g \<and>
               file (fst (handleFileUpload files s)) = Some g))"
proof (intro conjI impI)
  assume "\<not> accepted f"
  then show "fst (handleFileUpload (Some (f # fs)) s) = s"
    by (rule handleFileUpload_rejected_state)
  then show "file (fst (handleFileUpload (Some (f # fs)) s)) = file s"
    by simp
next
  assume "accepted f"
  then show "file (fst (handleFileUpload (Some (f # fs)) s)) = Some f"
    by (simp add: handleFileUpload_accepted)
next
  assume "file (fst (handleFileUpload files s)) \<noteq> file s"
  with handleFileUpload_file_cases [of files s]
  show "\<exists>g gs. files = Some (g # gs) \<and> accepted g \<and>
               file (fst (handleFileUpload files s)) = Some g"
    by blast
qed

theorem C10_witness:
  "\<not> accepted png_file \<and>
   fst (handleFileUpload (Some [png_file]) (ContentGenerator_init\<lparr>file := Some csv_file\<rparr>)) =
     ContentGenerator_init\<lparr>file := Some csv_file\<rparr> \<and>
   accepted csv_file \<and>
   file (fst (handleFileUpload (Some [csv_file]) ContentGenerator_init)) = Some csv_file"
  using C10_invalid_selection_keeps_file
          [of png_file "[]" "ContentGenerator_init\<lparr>file := Some csv_file\<rparr>"]
        C10_invalid_selection_keeps_file [of csv_file "[]" ContentGenerator_init]
        not_accepted_png accepted_csv
  by blast

section \<open>Blank input, rejected files and what reaches the network\<close>


lemma trim_Nil_iff: "trim s = [] \<longleftrightarrow> blank s"
proof (cases "dropWhile isWhiteSpace s")
  case Nil
  have "trim s = []" unfolding trim_def Nil by simp
  moreover from Nil have "blank s"
    by (simp add: blank_def list_all_iff dropWhile_eq_Nil_conv)
  ultimately show ?thesis by simp
next
  case (Cons x xs)
  then have x: "\<not> isWhiteSpace x" and mem: "x \<in> set s"
    using hd_dropWhile [of isWhiteSpace s] set_dropWhileD [of x isWhiteSpace s] by auto
  from x have "dropWhile isWhiteSpace (rev xs @ [x]) \<noteq> []"
    by (simp add: dropWhile_append)
  with Cons have "trim s \<noteq> []" by (simp add: trim_def)
  moreover from x mem have "\<not> blank s" by (auto simp: blank_def list_all_iff)
  ultimately show ?thesis by simp
qed

lemma handleGenerate_blank:
  "blank (prompt s) \<Longrightarrow>
   handleGenerate reader net s =
     (s, [Toast \<lparr>title = js ''Prompt required'',
                 description = js ''Please enter a prompt to generate content'',
                 variant = Some (js ''destructive'')\<rparr>])"
  by (simp add: handleGenerate_def truthy_def trim_Nil_iff)

lemma handleGenerate_encoded:
  "g \<in> set (encoded (snd (handleGenerate reader net s))) \<Longrightarrow> file s = Some g"
  by (auto simp: handleGenerate_def generate_attempt_def await_def fileToBase64_def
        contentApi_generate_def api_post_def Let_def
      split: if_splits option.splits prod.splits promise.splits reader_event.splits
        GenerateResponse.splits)


lemma encoded_append: "encoded (xs @ ys) = encoded xs @ encoded ys"
  by (induction xs rule: encoded.induct) simp_all

lemma requests_append: "requests (xs @ ys) = requests xs @ requests ys"
  by (induction xs rule: requests.induct) simp_all

lemma handleGenerate_file: "file (fst (handleGenerate reader net s)) = file s"
  by (auto simp: handleGenerate_def Let_def
      split: prod.splits promise.splits GenerateResponse.splits)

lemma handleFileUpload_effects:
  "requests (snd (handleFileUpload files s)) = [] \<and> encoded (snd (handleFileUpload files s)) = []"
  by (simp add: handleFileUpload_def split: option.splits)

lemma dispatch_file_ok: "file_ok s \<Longrightarrow> file_ok (fst (dispatch e s))"
proof (cases e)
  case (SelectFiles files)
  assume "file_ok s"
  with handleFileUpload_file_cases [of files s] SelectFiles show ?thesis
    by (auto simp: file_ok_def)
next
  case (ClickGenerate reader net)
  assume "file_ok s"
  with ClickGenerate show ?thesis
    by (simp add: file_ok_def handleGenerate_file)
qed (simp_all add: file_ok_def)

lemma dispatch_encoded:
  "g \<in> set (encoded (snd (dispatch e s))) \<Longrightarrow> file s = Some g"
  by (cases e) (auto simp: handleFileUpload_effects dest: handleGenerate_encoded split: if_splits)

lemma run_invariant:
  "file_ok s \<Longrightarrow> list_all accepted (encoded es) \<Longrightarrow>
   file_ok (fst (run evs (s, es))) \<and> list_all accepted (encoded (snd (run evs (s, es))))"
proof (induction evs arbitrary: s es)
  case Nil
  then show ?case by simp
next
  case (Cons e evs)
  obtain s' es' where d: "dispatch e s = (s', es')" by (cases "dispatch e s")
  from Cons.prems(1) have ok': "file_ok s'"
    using dispatch_file_ok [of s e] d by simp
  have "list_all accepted (encoded es')"
    unfolding list_all_iff
  proof
    fix g assume "g \<in> set (encoded es')"
    with d have "file s = Some g" using dispatch_encoded [of g e s] by simp
    with Cons.prems(1) show "accepted g" by (simp add: file_ok_def)
  qed
  with Cons.prems(2) have "list_all accepted (encoded (es @ es'))"
    by (simp add: encoded_append)
  from Cons.IH [OF ok' this] d show ?case by simp
qed

lemma file_ok_init: "file_ok ContentGenerator_init"
  by (simp add: file_ok_def ContentGenerator_init_def)

lemma reachable_file_ok: "file_ok (fst (run evs (ContentGenerator_init, [])))"
  using run_invariant [OF file_ok_init, of "[]" evs] by simp

lemma run_encoded_accepted:
  "g \<in> set (encoded (snd (run evs (ContentGenerator_init, [])))) \<Longrightarrow> accepted g"
  using run_invariant [OF file_ok_init, of "[]" evs] by (simp add: list_all_iff)

lemma handleGenerate_request_file:
  "r \<in> set (requests (snd (handleGenerate reader net s))) \<Longrightarrow>
   payload r = Some (GenerateBody p (Some d)) \<Longrightarrow>
   \<exists>g. file s = Some g \<and> reader g = Load d"
  by (auto simp: handleGenerate_def generate_attempt_def await_def fileToBase64_def
        contentApi_generate_def api_post_def Let_def requests_append
      split: if_splits option.splits prod.splits promise.splits reader_event.splits
        GenerateResponse.splits)


lemma handleAnalyze_blank:
  "blank (content s) \<Longrightarrow>
   handleAnalyze net s =
     (s, [Toast \<lparr>title = js ''Content required'',
                 description = js ''Please enter content to analyze'',
                 variant = Some (js ''destructive'')\<rparr>])"
  by (simp add: handleAnalyze_def truthy_def trim_Nil_iff)

text \<open>
  C1. A selected file that is larger than 5 * 1024 * 1024 bytes, or whose type is not one
  of text/csv, application/pdf and application/vnd.ms-excel, is rejected by the selection
  handler with one destructive notification and nothing else: the view state is
  unchanged and no request is issued. Whatever the user does afterwards, starting from
  the initial view, that file is never handed to the encoder, and every request that
  carries file data carries the encoding of the stored file, which passed both checks.
\<close>

theorem C1_invalid_file_rejected_without_request:
  assumes "\<not> accepted f"
  shows
    "(5 * 1024 * 1024 < file_size f \<longrightarrow>
        handleFileUpload (Some (f # fs)) s =
          (s, [Toast \<lparr>title = js ''File too large'',
                      description = js ''Please select a file smaller than 5MB'',
                      variant = Some (js ''destructive'')\<rparr>])) \<and>
     (file_size f \<le> 5 * 1024 * 1024 \<longrightarrow>
        handleFileUpload (Some (f # fs)) s =
          (s, [Toast \<lparr>title = js ''Invalid file type'',
                      description = js ''Please select a CSV or PDF file'',
                      variant = Some (js ''destructive'')\<rparr>])) \<and>
     requests (snd (handleFileUpload (Some (f # fs)) s)) = [] \<and>
     f \<notin> set (encoded (snd (run evs (ContentGenerator_init, [])))) \<and>
     (\<forall>r p d. r \<in> set (requests (snd (handleGenerate reader net
                                          (fst (run evs (ContentGenerator_init, [])))))) \<longrightarrow>
              payload r = Some (GenerateBody p (Some d)) \<longrightarrow>
              (\<exists>g. file (fst (run evs (ContentGenerator_init, []))) = Some g \<and>
                   accepted g \<and> reader g = Load d))"
proof (intro conjI impI allI)
  assume "5 * 1024 * 1024 < file_size f"
  then show "handleFileUpload (Some (f # fs)) s =
          (s, [Toast \<lparr>title = js ''File too large'',
                      description = js ''Please select a file smaller than 5MB'',
                      variant = Some (js ''destructive'')\<rparr>])"
    by (simp add: handleFileUpload_def selectedFile_def)
next
  assume "file_size f \<le> 5 * 1024 * 1024"
  with assms show "handleFileUpload (Some (f # fs)) s =
          (s, [Toast \<lparr>title = js ''Invalid file type'',
                      description = js ''Please select a CSV or PDF file'',
                      variant = Some (js ''destructive'')\<rparr>])"
    by (simp add: handleFileUpload_def selectedFile_def accepted_def)
next
  show "requests (snd (handleFileUpload (Some (f # fs)) s)) = []"
    by (simp add: handleFileUpload_effects)
next
  from assms show "f \<notin> set (encoded (snd (run evs (ContentGenerator_init, []))))"
    using run_encoded_accepted [of f evs] by blast
next
  fix r p d
  let ?s = "fst (run evs (ContentGenerator_init, []))"
  assume "r \<in> set (requests (snd (handleGenerate reader net ?s)))"
    and "payload r = Some (GenerateBody p (Some d))"
  then obtain g where g: "file ?s = Some g" "reader g = Load d"
    using handleGenerate_request_file by blast
  with reachable_file_ok [of evs] have "accepted g" by (simp add: file_ok_def)
  with g show "\<exists>g. file ?s = Some g \<and> accepted g \<and> reader g = Load d" by simp
qed

theorem C1_witness:
  "\<not> accepted big_file \<and>
   handleFileUpload (Some [big_file]) ContentGenerator_init =
     (ContentGenerator_init,
      [Toast \<lparr>title = js ''File too large'',
              description = js ''Please select a file smaller than 5MB'',
              variant = Some (js ''destructive'')\<rparr>]) \<and>
   big_file \<notin> set (encoded (snd (run
       [SelectFiles (Some [csv_file]), SelectFiles (Some [big_file]),
        ChangePrompt (js ''ad''),
        ClickGenerate (\<lambda>f. Load (js ''data:text/csv;base64,YSxi'')) (\<lambda>r. Pending)]
       (ContentGenerator_init, []))))"
proof -
  have big: "5 * 1024 * 1024 < file_size big_file" by (simp add: big_file_def)
  from C1_invalid_file_rejected_without_request [OF not_accepted_big] big not_accepted_big
  show ?thesis by blast
qed

text \<open>
  C2. A prompt (generation view) or a content string (sentiment view) that is empty or
  holds only white space is rejected by the submit handler at once: the handler returns
  the view state it was given, its only effect is one notification, and no request is
  issued.
\<close>

theorem C2_blank_input_rejected_locally:
  "(blank (prompt s) \<longrightarrow>
      handleGenerate reader net s =
        (s, [Toast \<lparr>title = js ''Prompt required'',
                    description = js ''Please enter a prompt to generate content'',
                    variant = Some (js ''destructive'')\<rparr>]) \<and>
      requests (snd (handleGenerate reader net s)) = [] \<and>
      encoded (snd (handleGenerate reader net s)) = []) \<and>
   (blank (content a) \<longrightarrow>
      handleAnalyze net' a =
        (a, [Toast \<lparr>title = js ''Content required'',
                    description = js ''Please enter content to analyze'',
                    variant = Some (js ''destructive'')\<rparr>]) \<and>
      requests (snd (handleAnalyze net' a)) = [])"
  by (simp add: handleGenerate_blank handleAnalyze_blank)

theorem C2_witness:
  "blank [0x20, 0x9, 0x3000] \<and>
   handleGenerate (\<lambda>f. Silent) (\<lambda>r. Pending)
       (ContentGenerator_init\<lparr>prompt := [0x20, 0x9, 0x3000]\<rparr>) =
     (ContentGenerator_init\<lparr>prompt := [0x20, 0x9, 0x3000]\<rparr>,
      [Toast \<lparr>title = js ''Prompt required'',
              description = js ''Please enter a prompt to generate content'',
              variant = Some (js ''destructive'')\<rparr>]) \<and>
   blank [] \<and>
   handleAnalyze (\<lambda>r. Pending) SentimentAnalyzer_init =
     (SentimentAnalyzer_init,
      [Toast \<lparr>title = js ''Content required'',
              description = js ''Please enter content to analyze'',
              variant = Some (js ''destructive'')\<rparr>])"
proof -
  have b1: "blank (prompt (ContentGenerator_init\<lparr>prompt := [0x20, 0x9, 0x3000]\<rparr>))"
    by (simp add: blank_def isWhiteSpace_def)
  have b2: "blank (content SentimentAnalyzer_init)"
    by (simp add: blank_def SentimentAnalyzer_init_def)
  have b3: "blank [0x20, 0x9, 0x3000]" by (simp add: blank_def isWhiteSpace_def)
  have b4: "blank []" by (simp add: blank_def)
  from C2_blank_input_rejected_locally
         [of "ContentGenerator_init\<lparr>prompt := [0x20, 0x9, 0x3000]\<rparr>" "\<lambda>f. Silent"
             "\<lambda>r. Pending" SentimentAnalyzer_init "\<lambda>r. Pending"]
       b1 b2 b3 b4
  show ?thesis by blast
qed

section \<open>Outcomes of a request\<close>


lemma toasts_append: "toasts (xs @ ys) = toasts xs @ toasts ys"
  by (induction xs rule: toasts.induct) simp_all

lemma str_includes_iff: "str_includes s p \<longleftrightarrow> (\<exists>u v. s = u @ p @ v)"
proof (induction s)
  case Nil
  then show ?case by auto
next
  case (Cons c s)
  show ?case
  proof
    assume "str_includes (c # s) p"
    then consider "take (length p) (c # s) = p" | "str_includes s p" by auto
    then show "\<exists>u v. c # s = u @ p @ v"
    proof cases
      case 1
      then have "c # s = [] @ p @ drop (length p) (c # s)"
        by (metis append_Nil append_take_drop_id)
      then show ?thesis by blast
    next
      case 2
      with Cons.IH obtain u v where "s = u @ p @ v" by blast
      then have "c # s = (c # u) @ p @ v" by simp
      then show ?thesis by blast
    qed
  next
    assume "\<exists>u v. c # s = u @ p @ v"
    then obtain u v where uv: "c # s = u @ p @ v" by blast
    show "str_includes (c # s) p"
    proof (cases u)
      case Nil
      with uv have "take (length p) (c # s) = p" by simp
      then show ?thesis by simp
    next
      case (Cons a u')
      with uv have "s = u' @ p @ v" by simp
      with Cons.IH have "str_includes s p" by blast
      then show ?thesis by simp
    qed
  qed
qed

lemma generate_attempt_toasts: "toasts (fst (generate_attempt reader net s)) = []"
  by (auto simp: generate_attempt_def await_def fileToBase64_def contentApi_generate_def
        api_post_def Let_def
      split: option.splits promise.splits reader_event.splits)

lemma handleGenerate_rejected:
  assumes "\<not> blank (prompt s)" and "snd (generate_attempt reader net s) = Rejected e"
  shows "handleGenerate reader net s =
           (s\<lparr>isLoading := False\<rparr>,
            fst (generate_attempt reader net s) @
            [ConsoleError (js ''[v0] Content generation error:'') e,
             Toast \<lparr>title = js ''Generation failed'',
                    description = (if isNetworkError e then cannot_connect else generic_failure),
                    variant = Some (js ''destructive'')\<rparr>])"
  using assms
  by (cases "generate_attempt reader net s")
     (simp add: handleGenerate_def truthy_def trim_Nil_iff)

lemma handleGenerate_resolved:
  assumes "\<not> blank (prompt s)"
    and "snd (generate_attempt reader net s) = Resolved (GenerateResponse c u)"
  shows "handleGenerate reader net s =
           (s\<lparr>generatedContent := Some c, imageUrl := u, isLoading := False\<rparr>,
            fst (generate_attempt reader net s) @
            [Toast \<lparr>title = js ''Content generated successfully'',
                    description = js ''Your marketing content has been created'',
                    variant = None\<rparr>])"
  using assms
  by (cases "generate_attempt reader net s")
     (simp add: handleGenerate_def truthy_def trim_Nil_iff)


lemma handleAnalyze_resolved:
  assumes "\<not> blank (content s)"
    and "snd (analysisApi_analyze net (content s)) = Resolved (AnalyzeResponse sc label)"
  shows "handleAnalyze net s =
           (s\<lparr>sentiment := Some sc, sentimentLabel := Some label, isLoading := False\<rparr>,
            fst (analysisApi_analyze net (content s)) @
            [Toast \<lparr>title = js ''Analysis complete'',
                    description = js ''Content sentiment: '' @ label,
                    variant = None\<rparr>])"
  using assms
  by (cases "analysisApi_analyze net (content s)")
     (simp add: handleAnalyze_def truthy_def trim_Nil_iff)

lemma messages_differ: "cannot_connect \<noteq> generic_failure"
  by (simp add: cannot_connect_def generic_failure_def js_def)

lemma isNetworkError_iff:
  "isNetworkError e \<longleftrightarrow>
     (\<exists>m. e = Error m \<and> (m = js ''Network Error'' \<or> (\<exists>u v. m = u @ js ''ECONNREFUSED'' @ v)))"
  by (cases e) (simp_all add: isNetworkError_def str_includes_iff)



lemma handleGenerate_without_content:
  assumes "\<not> blank (prompt s)"
    and "snd (generate_attempt reader net s) = Resolved (Without_content u)"
  shows "handleGenerate reader net s =
           (s\<lparr>generatedContent := None, imageUrl := u, isLoading := False\<rparr>,
            fst (generate_attempt reader net s) @
            [Toast \<lparr>title = js ''Content generated successfully'',
                    description = js ''Your marketing content has been created'',
                    variant = None\<rparr>])"
  using assms
  by (cases "generate_attempt reader net s")
     (simp add: handleGenerate_def truthy_def trim_Nil_iff)

lemma handleGenerate_null_body:
  assumes "\<not> blank (prompt s)"
    and "snd (generate_attempt reader net s) = Resolved (Null_body m)"
  shows "handleGenerate reader net s =
           (s\<lparr>isLoading := False\<rparr>,
            fst (generate_attempt reader net s) @
            [ConsoleError (js ''[v0] Content generation error:'') (Error m),
             Toast \<lparr>title = js ''Generation failed'',
                    description =
                      (if isNetworkError (Error m) then cannot_connect else generic_failure),
                    variant = Some (js ''destructive'')\<rparr>])"
  using assms
  by (cases "generate_attempt reader net s")
     (simp add: handleGenerate_def truthy_def trim_Nil_iff)

lemma render_without_content:
  "render_generated (s\<lparr>generatedContent := None, imageUrl := u, isLoading := False\<rparr>) =
     Placeholder"
  by (simp add: render_generated_def)

lemma success_text_differs:
  "js ''Your marketing content has been created'' \<noteq> generic_failure"
  "js ''Your marketing content has been created'' \<noteq> cannot_connect"
  by (simp_all add: cannot_connect_def generic_failure_def js_def)

text \<open>
  C5 as stated fails for a malformed response: a 2xx response whose body has no
  \<^verbatim>\<open>content\<close> is not a failure for the handler. Its only notification is the success
  one, not the generic try-again message, and the result card shows the placeholder.
\<close>

theorem C5_counterexample:
  "toasts (snd (handleGenerate (\<lambda>f. Silent) (\<lambda>r. Resolved (Without_content None))
                  (ContentGenerator_init\<lparr>prompt := js ''ad''\<rparr>))) =
     [\<lparr>title = js ''Content generated successfully'',
       description = js ''Your marketing content has been created'',
       variant = None\<rparr>] \<and>
   js ''Your marketing content has been created'' \<noteq> generic_failure \<and>
   js ''Content generated successfully'' \<noteq> js ''Generation failed'' \<and>
   render_generated (fst (handleGenerate (\<lambda>f. Silent) (\<lambda>r. Resolved (Without_content None))
                            (ContentGenerator_init\<lparr>prompt := js ''ad''\<rparr>))) = Placeholder"
proof -
  let ?s = "ContentGenerator_init\<lparr>prompt := js ''ad''\<rparr>"
  have nb: "\<not> blank (prompt ?s)"
    by (simp add: blank_def js_def isWhiteSpace_def)
  have a: "snd (generate_attempt (\<lambda>f. Silent) (\<lambda>r. Resolved (Without_content None)) ?s) =
             Resolved (Without_content None)"
    by (simp add: generate_attempt_def ContentGenerator_init_def await_def
          contentApi_generate_def api_post_def)
  have d: "js ''Content generated successfully'' \<noteq> js ''Generation failed''"
    by (simp add: js_def)
  show ?thesis
    by (simp add: handleGenerate_without_content [OF nb a] toasts_append
          generate_attempt_toasts render_without_content success_text_differs d)
qed

text \<open>
  C5 (amended). When the generate attempt throws, the handler shows exactly one
  notification, titled "Generation failed". Its description is the cannot-connect message
  when the thrown value is an \<^verbatim>\<open>Error\<close> whose message is "Network Error" or contains
  "ECONNREFUSED" (how the HTTP client reports an unreachable backend), and the generic
  try-again message for every other thrown value: a failed file read, an HTTP error
  status, and the \<^verbatim>\<open>TypeError\<close> of reading the content of a \<^verbatim>\<open>null\<close> body among them.
  The two messages are different strings. A response body that is not \<^verbatim>\<open>null\<close> and has
  no content is no failure: the handler stores \<^verbatim>\<open>undefined\<close> as the content, shows the
  success notification, and the result card shows the placeholder.
\<close>

theorem C5_failure_message:
  assumes "\<not> blank (prompt s)"
  shows
    "(snd (generate_attempt reader net s) = Rejected e \<longrightarrow>
        toasts (snd (handleGenerate reader net s)) =
          [\<lparr>title = js ''Generation failed'',
            description =
              (if \<exists>m. e = Error m \<and>
                       (m = js ''Network Error'' \<or> (\<exists>u v. m = u @ js ''ECONNREFUSED'' @ v))
               then cannot_connect else generic_failure),
            variant = Some (js ''destructive'')\<rparr>]) \<and>
     (snd (generate_attempt reader net s) = Resolved (Null_body tm) \<longrightarrow>
        toasts (snd (handleGenerate reader net s)) =
          [\<lparr>title = js ''Generation failed'',
            description =
              (if tm = js ''Network Error'' \<or> (\<exists>u v. tm = u @ js ''ECONNREFUSED'' @ v)
               then cannot_connect else generic_failure),
            variant = Some (js ''destructive'')\<rparr>]) \<and>
     (snd (generate_attempt reader net s) = Resolved (Without_content iu) \<longrightarrow>
        toasts (snd (handleGenerate reader net s)) =
          [\<lparr>title = js ''Content generated successfully'',
            description = js ''Your marketing content has been created'',
            variant = None\<rparr>] \<and>
        generatedContent (fst (handleGenerate reader net s)) = None \<and>
        render_generated (fst (handleGenerate reader net s)) = Placeholder) \<and>
     cannot_connect \<noteq> generic_failure"
proof (intro conjI impI)
  assume r: "snd (generate_attempt reader net s) = Rejected e"
  show "toasts (snd (handleGenerate reader net s)) =
          [\<lparr>title = js ''Generation failed'',
            description =
              (if \<exists>m. e = Error m \<and>
                       (m = js ''Network Error'' \<or> (\<exists>u v. m = u @ js ''ECONNREFUSED'' @ v))
               then cannot_connect else generic_failure),
            variant = Some (js ''destructive'')\<rparr>]"
    by (simp add: handleGenerate_rejected [OF assms r] toasts_append generate_attempt_toasts
          isNetworkError_iff)
next
  assume r: "snd (generate_attempt reader net s) = Resolved (Null_body tm)"
  show "toasts (snd (handleGenerate reader net s)) =
          [\<lparr>title = js ''Generation failed'',
            description =
              (if tm = js ''Network Error'' \<or> (\<exists>u v. tm = u @ js ''ECONNREFUSED'' @ v)
               then cannot_connect else generic_failure),
            variant = Some (js ''destructive'')\<rparr>]"
    by (simp add: handleGenerate_null_body [OF assms r] toasts_append generate_attempt_toasts
          isNetworkError_iff)
next
  assume r: "snd (generate_attempt reader net s) = Resolved (Without_content iu)"
  show "toasts (snd (handleGenerate reader net s)) =
          [\<lparr>title = js ''Content generated successfully'',
            description = js ''Your marketing content has been created'',
            variant = None\<rparr>]"
    by (simp add: handleGenerate_without_content [OF assms r] toasts_append
          generate_attempt_toasts)
  show "generatedContent (fst (handleGenerate reader net s)) = None"
    by (simp add: handleGenerate_without_content [OF assms r])
  show "render_generated (fst (handleGenerate reader net s)) = Placeholder"
    by (simp add: handleGenerate_without_content [OF assms r] render_without_content)
next
  show "cannot_connect \<noteq> generic_failure" by (rule messages_differ)
qed

theorem C5_witness:
  "\<not> blank (js ''ad'') \<and>
   toasts (snd (handleGenerate (\<lambda>f. Silent) (\<lambda>r. Rejected (Error (js ''Network Error'')))
                  (ContentGenerator_init\<lparr>prompt := js ''ad''\<rparr>))) =
     [\<lparr>title = js ''Generation failed'', description = cannot_connect,
       variant = Some (js ''destructive'')\<rparr>] \<and>
   toasts (snd (handleGenerate (\<lambda>f. Silent)
                  (\<lambda>r. Rejected (Error (js ''Request failed with status code 500'')))
                  (ContentGenerator_init\<lparr>prompt := js ''ad''\<rparr>))) =
     [\<lparr>title = js ''Generation failed'', description = generic_failure,
       variant = Some (js ''destructive'')\<rparr>] \<and>
   toasts (snd (handleGenerate (\<lambda>f. Failed) (\<lambda>r. Pending)
                  (ContentGenerator_init\<lparr>prompt := js ''ad'', file := Some csv_file\<rparr>))) =
     [\<lparr>title = js ''Generation failed'', description = generic_failure,
       variant = Some (js ''destructive'')\<rparr>] \<and>
   toasts (snd (handleGenerate (\<lambda>f. Silent) (\<lambda>r. Resolved (Null_body (js ''response is null'')))
                  (ContentGenerator_init\<lparr>prompt := js ''ad''\<rparr>))) =
     [\<lparr>title = js ''Generation failed'', description = generic_failure,
       variant = Some (js ''destructive'')\<rparr>] \<and>
   toasts (snd (handleGenerate (\<lambda>f. Silent)
                  (\<lambda>r. Resolved (Without_content (Some (js ''https://cdn.example/ad.png''))))
                  (ContentGenerator_init\<lparr>prompt := js ''ad''\<rparr>))) =
     [\<lparr>title = js ''Content generated successfully'',
       description = js ''Your marketing content has been created'',
       variant = None\<rparr>]"
proof -
  let ?s = "ContentGenerator_init\<lparr>prompt := js ''ad''\<rparr>"
  let ?t = "ContentGenerator_init\<lparr>prompt := js ''ad'', file := Some csv_file\<rparr>"
  have nb: "\<not> blank (js ''ad'')"
    by (simp add: blank_def js_def isWhiteSpace_def)
  have nbs: "\<not> blank (prompt ?s)" and nbt: "\<not> blank (prompt ?t)"
    using nb by simp_all
  have a: "snd (generate_attempt (\<lambda>f. Silent) (\<lambda>r. x) ?s) = x" for x
    by (cases x)
       (simp_all add: generate_attempt_def ContentGenerator_init_def await_def
          contentApi_generate_def api_post_def)
  have r3: "snd (generate_attempt (\<lambda>f. Failed) (\<lambda>r. Pending) ?t) = Rejected Thrown_other"
    by (simp add: generate_attempt_def ContentGenerator_init_def await_def fileToBase64_def)
  have c1: "\<exists>m. Error (js ''Network Error'') = Error m \<and>
                (m = js ''Network Error'' \<or> (\<exists>u v. m = u @ js ''ECONNREFUSED'' @ v))"
    by blast
  have "\<not> isNetworkError (Error (js ''Request failed with status code 500''))"
    by (simp add: isNetworkError_def js_def)
  then have c2: "\<not> (\<exists>m. Error (js ''Request failed with status code 500'') = Error m \<and>
                (m = js ''Network Error'' \<or> (\<exists>u v. m = u @ js ''ECONNREFUSED'' @ v)))"
    using isNetworkError_iff by blast
  have c3: "\<not> (\<exists>m. Thrown_other = Error m \<and>
                (m = js ''Network Error'' \<or> (\<exists>u v. m = u @ js ''ECONNREFUSED'' @ v)))"
    by simp
  have "\<not> isNetworkError (Error (js ''response is null''))"
    by (simp add: isNetworkError_def js_def)
  then have c4: "\<not> (js ''response is null'' = js ''Network Error'' \<or>
                     (\<exists>u v. js ''response is null'' = u @ js ''ECONNREFUSED'' @ v))"
    using isNetworkError_iff by blast
  from C5_failure_message [OF nbs, where reader = "\<lambda>f. Silent"
         and net = "\<lambda>r. Rejected (Error (js ''Network Error''))"
         and e = "Error (js ''Network Error'')"] a
  have "toasts (snd (handleGenerate (\<lambda>f. Silent) (\<lambda>r. Rejected (Error (js ''Network Error''))) ?s)) =
     [\<lparr>title = js ''Generation failed'',
       description =
         (if \<exists>m. Error (js ''Network Error'') = Error m \<and>
                  (m = js ''Network Error'' \<or> (\<exists>u v. m = u @ js ''ECONNREFUSED'' @ v))
          then cannot_connect else generic_failure),
       variant = Some (js ''destructive'')\<rparr>]"
    by blast
  with c1 have w1: "toasts (snd (handleGenerate (\<lambda>f. Silent)
                      (\<lambda>r. Rejected (Error (js ''Network Error''))) ?s)) =
     [\<lparr>title = js ''Generation failed'', description = cannot_connect,
       variant = Some (js ''destructive'')\<rparr>]"
    by (simp only: if_True)
  from C5_failure_message [OF nbs, where reader = "\<lambda>f. Silent"
         and net = "\<lambda>r. Rejected (Error (js ''Request failed with status code 500''))"
         and e = "Error (js ''Request failed with status code 500'')"] a
  have "toasts (snd (handleGenerate (\<lambda>f. Silent)
                  (\<lambda>r. Rejected (Error (js ''Request failed with status code 500''))) ?s)) =
     [\<lparr>title = js ''Generation failed'',
       description =
         (if \<exists>m. Error (js ''Request failed with status code 500'') = Error m \<and>
                  (m = js ''Network Error'' \<or> (\<exists>u v. m = u @ js ''ECONNREFUSED'' @ v))
          then cannot_connect else generic_failure),
       variant = Some (js ''destructive'')\<rparr>]"
    by blast
  with c2 have w2: "toasts (snd (handleGenerate (\<lambda>f. Silent)
                  (\<lambda>r. Rejected (Error (js ''Request failed with status code 500''))) ?s)) =
     [\<lparr>title = js ''Generation failed'', description = generic_failure,
       variant = Some (js ''destructive'')\<rparr>]"
    by (simp only: if_False)
  from C5_failure_message [OF nbt, where reader = "\<lambda>f. Failed" and net = "\<lambda>r. Pending"
         and e = Thrown_other] r3
  have "toasts (snd (handleGenerate (\<lambda>f. Failed) (\<lambda>r. Pending) ?t)) =
     [\<lparr>title = js ''Generation failed'',
       description =
         (if \<exists>m. Thrown_other = Error m \<and>
                  (m = js ''Network Error'' \<or> (\<exists>u v. m = u @ js ''ECONNREFUSED'' @ v))
          then cannot_connect else generic_failure),
       variant = Some (js ''destructive'')\<rparr>]"
    by blast
  with c3 have w3: "toasts (snd (handleGenerate (\<lambda>f. Failed) (\<lambda>r. Pending) ?t)) =
     [\<lparr>title = js ''Generation failed'', description = generic_failure,
       variant = Some (js ''destructive'')\<rparr>]"
    by (simp only: if_False)
  from C5_failure_message [OF nbs, where reader = "\<lambda>f. Silent"
         and net = "\<lambda>r. Resolved (Null_body (js ''response is null''))"
         and tm = "js ''response is null''"] a
  have "toasts (snd (handleGenerate (\<lambda>f. Silent)
                  (\<lambda>r. Resolved (Null_body (js ''response is null''))) ?s)) =
     [\<lparr>title = js ''Generation failed'',
       description =
         (if js ''response is null'' = js ''Network Error'' \<or>
             (\<exists>u v. js ''response is null'' = u @ js ''ECONNREFUSED'' @ v)
          then cannot_connect else generic_failure),
       variant = Some (js ''destructive'')\<rparr>]"
    by blast
  with c4 have w4: "toasts (snd (handleGenerate (\<lambda>f. Silent)
                  (\<lambda>r. Resolved (Null_body (js ''response is null''))) ?s)) =
     [\<lparr>title = js ''Generation failed'', description = generic_failure,
       variant = Some (js ''destructive'')\<rparr>]"
    by (simp only: if_False)
  from C5_failure_message [OF nbs, where reader = "\<lambda>f. Silent"
         and net = "\<lambda>r. Resolved (Without_content (Some (js ''https://cdn.example/ad.png'')))"
         and iu = "Some (js ''https://cdn.example/ad.png'')"] a
  have w5: "toasts (snd (handleGenerate (\<lambda>f. Silent)
                  (\<lambda>r. Resolved (Without_content (Some (js ''https://cdn.example/ad.png'')))) ?s)) =
     [\<lparr>title = js ''Content generated successfully'',
       description = js ''Your marketing content has been created'',
       variant = None\<rparr>]"
    by blast
  from nb w1 w2 w3 w4 w5 show ?thesis by blast
qed




lemma render_after_success:
  "render_generated (s\<lparr>generatedContent := Some c, imageUrl := u, isLoading := False\<rparr>) =
     (if c = [] then Placeholder
      else Shown (c, case u of
                       None \<Rightarrow> None
                     | Some v \<Rightarrow>
                         if v = [] then None
                         else Some \<lparr>src = v, alt = js ''Generated content visual'',
                                    display = None\<rparr>))"
  by (simp add: render_generated_def truthy_def split: option.splits)

text \<open>
  C7 as stated fails: with a response whose image URL is the empty string the text is
  rendered without an image although the URL is not null, and with a response whose
  content is the empty string neither the text nor the image of a proper URL is
  rendered.
\<close>

theorem C7_counterexample:
  "imageUrl (fst (handleGenerate (\<lambda>f. Silent)
       (\<lambda>r. Resolved (GenerateResponse (js ''Buy now'') (Some [])))
       (ContentGenerator_init\<lparr>prompt := js ''ad''\<rparr>))) \<noteq> None \<and>
   shown_image (render_generated (fst (handleGenerate (\<lambda>f. Silent)
       (\<lambda>r. Resolved (GenerateResponse (js ''Buy now'') (Some [])))
       (ContentGenerator_init\<lparr>prompt := js ''ad''\<rparr>)))) = None \<and>
   imageUrl (fst (handleGenerate (\<lambda>f. Silent)
       (\<lambda>r. Resolved (GenerateResponse [] (Some (js ''https://cdn.example/ad.png''))))
       (ContentGenerator_init\<lparr>prompt := js ''ad''\<rparr>))) \<noteq> None \<and>
   shown_image (render_generated (fst (handleGenerate (\<lambda>f. Silent)
       (\<lambda>r. Resolved (GenerateResponse [] (Some (js ''https://cdn.example/ad.png''))))
       (ContentGenerator_init\<lparr>prompt := js ''ad''\<rparr>)))) = None \<and>
   shown_text (render_generated (fst (handleGenerate (\<lambda>f. Silent)
       (\<lambda>r. Resolved (GenerateResponse [] (Some (js ''https://cdn.example/ad.png''))))
       (ContentGenerator_init\<lparr>prompt := js ''ad''\<rparr>)))) = None"
proof -
  let ?s = "ContentGenerator_init\<lparr>prompt := js ''ad''\<rparr>"
  have nb: "\<not> blank (prompt ?s)"
    by (simp add: blank_def js_def isWhiteSpace_def)
  have a: "snd (generate_attempt (\<lambda>f. Silent) (\<lambda>r. Resolved x) ?s) = Resolved x" for x
    by (simp add: generate_attempt_def ContentGenerator_init_def await_def
          contentApi_generate_def api_post_def)
  show ?thesis
    by (simp add: handleGenerate_resolved [OF nb a] render_after_success)
qed

text \<open>
  C7 (amended). After a successful generate response the view holds the returned content
  and image URL and is no longer loading. The text is rendered when the content is a
  non-empty string, and with it the image, sourced from the URL, exactly when the URL is
  a non-empty string; for an empty content the placeholder line is rendered instead, with
  no image. An image whose load fails gets \<^verbatim>\<open>display: none\<close>.
\<close>

theorem C7_success_stored_and_shown:
  assumes "\<not> blank (prompt s)"
    and "snd (generate_attempt reader net s) = Resolved (GenerateResponse c u)"
  shows
    "generatedContent (fst (handleGenerate reader net s)) = Some c \<and>
     imageUrl (fst (handleGenerate reader net s)) = u \<and>
     \<not> isLoading (fst (handleGenerate reader net s)) \<and>
     render_generated (fst (handleGenerate reader net s)) =
       (if c = [] then Placeholder
        else Shown (c, case u of
                         None \<Rightarrow> None
                       | Some v \<Rightarrow>
                           if v = [] then None
                           else Some \<lparr>src = v, alt = js ''Generated content visual'',
                                      display = None\<rparr>)) \<and>
     display (img_onError i) = Some (js ''none'') \<and>
     src (img_onError i) = src i"
  by (simp add: handleGenerate_resolved [OF assms] render_after_success img_onError_def)

theorem C7_witness:
  "\<not> blank (js ''ad'') \<and>
   render_generated (fst (handleGenerate (\<lambda>f. Silent)
       (\<lambda>r. Resolved (GenerateResponse (js ''Buy now'') (Some (js ''https://cdn.example/ad.png''))))
       (ContentGenerator_init\<lparr>prompt := js ''ad''\<rparr>))) =
     Shown (js ''Buy now'',
            Some \<lparr>src = js ''https://cdn.example/ad.png'', alt = js ''Generated content visual'',
                  display = None\<rparr>) \<and>
   render_generated (fst (handleGenerate (\<lambda>f. Silent)
       (\<lambda>r. Resolved (GenerateResponse (js ''Buy now'') None))
       (ContentGenerator_init\<lparr>prompt := js ''ad''\<rparr>))) =
     Shown (js ''Buy now'', None)"
proof -
  let ?s = "ContentGenerator_init\<lparr>prompt := js ''ad''\<rparr>"
  have nb: "\<not> blank (js ''ad'')"
    by (simp add: blank_def js_def isWhiteSpace_def)
  then have nbs: "\<not> blank (prompt ?s)" by simp
  have a: "snd (generate_attempt (\<lambda>f. Silent) (\<lambda>r. Resolved x) ?s) = Resolved x" for x
    by (simp add: generate_attempt_def ContentGenerator_init_def await_def
          contentApi_generate_def api_post_def)
  have n1: "js ''Buy now'' \<noteq> []" and n2: "js ''https://cdn.example/ad.png'' \<noteq> []"
    by (simp_all add: js_def)
  from C7_success_stored_and_shown [OF nbs a, of "js ''Buy now''" "Some (js ''https://cdn.example/ad.png'')"]
  have w1: "render_generated (fst (handleGenerate (\<lambda>f. Silent)
       (\<lambda>r. Resolved (GenerateResponse (js ''Buy now'') (Some (js ''https://cdn.example/ad.png''))))
       ?s)) =
     Shown (js ''Buy now'',
            Some \<lparr>src = js ''https://cdn.example/ad.png'', alt = js ''Generated content visual'',
                  display = None\<rparr>)"
    using n1 n2 by simp
  from C7_success_stored_and_shown [OF nbs a, of "js ''Buy now''" None]
  have w2: "render_generated (fst (handleGenerate (\<lambda>f. Silent)
       (\<lambda>r. Resolved (GenerateResponse (js ''Buy now'') None)) ?s)) =
     Shown (js ''Buy now'', None)"
    using n1 by simp
  from nb w1 w2 show ?thesis by blast
qed

lemma render_trends_cards:
  "render_trends (s\<lparr>isLoading := False\<rparr>) =
     (if trends s = [] then Placeholder
      else Shown (map (\<lambda>(index, trend).
                     \<lparr>card_key = index, card_title = trend,
                      card_body = js ''Trending in marketing and content creation''\<rparr>)
                   (enumerate 0 (trends s))))"
  by (simp add: render_trends_def)

lemma cards_titles:
  "map card_title (map (\<lambda>(index, trend).
                     \<lparr>card_key = index, card_title = trend, card_body = b\<rparr>)
                   (enumerate n ts)) = ts"
  by (induction ts arbitrary: n) simp_all

lemma cards_keys:
  "map card_key (map (\<lambda>(index, trend).
                     \<lparr>card_key = index, card_title = trend, card_body = b\<rparr>)
                   (enumerate n ts)) = [n..<n + length ts]"
  by (induction ts arbitrary: n) (simp_all add: upt_rec)

text \<open>
  C6. While the trends view is not loading, an empty trends list renders the no-trends
  placeholder (which is neither the spinner nor a grid) and a non-empty list renders a
  grid with exactly one card per trend, titled by the trends in the order of the list
  and keyed by their positions. A resolved \<^verbatim>\<open>getTrends\<close> call stores the response's
  list as it is and ends the loading.
\<close>

theorem C6_trends_rendering:
  assumes "\<not> isLoading s"
  shows
    "(trends s = [] \<longrightarrow>
        render_trends s = Placeholder \<and> render_trends s \<noteq> Spinner \<and>
        (\<forall>cards. render_trends s \<noteq> Shown cards)) \<and>
     (trends s \<noteq> [] \<longrightarrow>
        (\<exists>cards. render_trends s = Shown cards \<and>
                 length cards = length (trends s) \<and>
                 map card_title cards = trends s \<and>
                 map card_key cards = [0..<length (trends s)])) \<and>
     (snd (trendsApi_getTrends net) = Resolved (TrendsResponse ts) \<longrightarrow>
        trends (fst (fetchTrends net s0)) = ts \<and> \<not> isLoading (fst (fetchTrends net s0)))"
proof (intro conjI impI)
  assume e: "trends s = []"
  with assms show "render_trends s = Placeholder" by (simp add: render_trends_def)
  then show "render_trends s \<noteq> Spinner" and "\<forall>cards. render_trends s \<noteq> Shown cards"
    by simp_all
next
  assume ne: "trends s \<noteq> []"
  let ?cards = "map (\<lambda>(index, trend).
                     \<lparr>card_key = index, card_title = trend,
                      card_body = js ''Trending in marketing and content creation''\<rparr>)
                   (enumerate 0 (trends s))"
  from assms ne have "render_trends s = Shown ?cards" by (simp add: render_trends_def)
  moreover have "length ?cards = length (trends s)" by simp
  moreover have "map card_title ?cards = trends s" by (rule cards_titles)
  moreover have "map card_key ?cards = [0..<length (trends s)]"
    using cards_keys [of _ 0 "trends s"] by simp
  ultimately show "\<exists>cards. render_trends s = Shown cards \<and>
                 length cards = length (trends s) \<and>
                 map card_title cards = trends s \<and>
                 map card_key cards = [0..<length (trends s)]"
    by blast
next
  assume r: "snd (trendsApi_getTrends net) = Resolved (TrendsResponse ts)"
  then show "trends (fst (fetchTrends net s0)) = ts"
    by (cases "trendsApi_getTrends net") (simp add: fetchTrends_def)
  from r show "\<not> isLoading (fst (fetchTrends net s0))"
    by (cases "trendsApi_getTrends net") (simp add: fetchTrends_def)
qed

theorem C6_witness:
  "\<not> isLoading (fst (fetchTrends (\<lambda>r. Resolved (TrendsResponse [])) TrendsViewer_init)) \<and>
   render_trends (fst (fetchTrends (\<lambda>r. Resolved (TrendsResponse [])) TrendsViewer_init)) =
     Placeholder \<and>
   (\<exists>cards.
      render_trends (fst (fetchTrends (\<lambda>r. Resolved (TrendsResponse [js ''AI'', js ''Video'']))
                            TrendsViewer_init)) = Shown cards \<and>
      map card_title cards = [js ''AI'', js ''Video''])"
proof -
  let ?n0 = "\<lambda>r::request. Resolved (TrendsResponse [])"
  let ?n2 = "\<lambda>r::request. Resolved (TrendsResponse [js ''AI'', js ''Video''])"
  have g: "snd (trendsApi_getTrends (\<lambda>r. Resolved x)) = Resolved x" for x
    by (simp add: trendsApi_getTrends_def api_get_def)
  have l0: "\<not> isLoading (fst (fetchTrends ?n0 TrendsViewer_init))"
    and t0: "trends (fst (fetchTrends ?n0 TrendsViewer_init)) = []"
    using C6_trends_rendering [of TrendsViewer_init ?n0 "[]" TrendsViewer_init] g
    by (simp_all add: TrendsViewer_init_def)
  have l2: "\<not> isLoading (fst (fetchTrends ?n2 TrendsViewer_init))"
    and t2: "trends (fst (fetchTrends ?n2 TrendsViewer_init)) = [js ''AI'', js ''Video'']"
    using C6_trends_rendering [of TrendsViewer_init ?n2 "[js ''AI'', js ''Video'']" TrendsViewer_init] g
    by (simp_all add: TrendsViewer_init_def)
  from C6_trends_rendering [OF l0] t0
  have w0: "render_trends (fst (fetchTrends ?n0 TrendsViewer_init)) = Placeholder" by blast
  from C6_trends_rendering [OF l2] t2
  have w2: "\<exists>cards. render_trends (fst (fetchTrends ?n2 TrendsViewer_init)) = Shown cards \<and>
      map card_title cards = [js ''AI'', js ''Video'']"
    by (metis list.distinct(1))
  from l0 w0 w2 show ?thesis by blast
qed



lemma api_post_requests: "requests (fst (api_post cfg net path d)) =
    [\<lparr>config = cfg, verb = POST, url = path, payload = Some d\<rparr>]"
  by (simp add: api_post_def Let_def)

lemma api_get_requests: "requests (fst (api_get cfg net path)) =
    [\<lparr>config = cfg, verb = GET, url = path, payload = None\<rparr>]"
  by (simp add: api_get_def Let_def)

section \<open>The base URL\<close>

text \<open>
  C4 as stated fails: with \<^verbatim>\<open>NEXT_PUBLIC_API_BASE_URL\<close> set to another address, which
  the adapter that reads the environment would take, the adapter that has all three
  operations still sends each of them to \<^verbatim>\<open>http://localhost:8000\<close>.
\<close>

theorem C4_counterexample:
  "API_BASE_URL_env (Map.empty (js ''NEXT_PUBLIC_API_BASE_URL'' \<mapsto> js ''https://api.example.com''))
     = js ''https://api.example.com'' \<and>
   map (\<lambda>r. baseURL (config r)) (requests (fst (analysisApi_analyze (\<lambda>r. Pending) (js ''ad''))))
     = [js ''http://localhost:8000''] \<and>
   map (\<lambda>r. baseURL (config r)) (requests (fst (trendsApi_getTrends (\<lambda>r. Pending))))
     = [js ''http://localhost:8000''] \<and>
   map (\<lambda>r. baseURL (config r))
       (requests (fst (contentApi_generate (\<lambda>r. Pending) (js ''ad'') None)))
     = [js ''http://localhost:8000''] \<and>
   js ''http://localhost:8000'' \<noteq> js ''https://api.example.com''"
  by (simp add: API_BASE_URL_env_def analysisApi_analyze_def trendsApi_getTrends_def
        contentApi_generate_def api_post_requests api_get_requests api_def API_BASE_URL_def)
     (simp add: js_def)

text \<open>
  C4 (amended). The adapter with the three operations has the constant base URL
  \<^verbatim>\<open>http://localhost:8000\<close>, and the request of each of generate, getTrends and analyze
  carries it. The adapter that reads the environment (it has generate only) takes
  \<^verbatim>\<open>NEXT_PUBLIC_API_BASE_URL\<close> when it is set and \<^verbatim>\<open>http://localhost:8000\<close> otherwise,
  depends on nothing else of the environment, and its request carries that base URL.
\<close>

theorem C4_base_url:
  "API_BASE_URL = js ''http://localhost:8000'' \<and>
   map (\<lambda>r. baseURL (config r)) (requests (fst (contentApi_generate gnet p f))) = [API_BASE_URL] \<and>
   map (\<lambda>r. baseURL (config r)) (requests (fst (trendsApi_getTrends tnet))) = [API_BASE_URL] \<and>
   map (\<lambda>r. baseURL (config r)) (requests (fst (analysisApi_analyze anet c))) = [API_BASE_URL] \<and>
   (env (js ''NEXT_PUBLIC_API_BASE_URL'') = None \<longrightarrow>
      API_BASE_URL_env env = js ''http://localhost:8000'') \<and>
   (env (js ''NEXT_PUBLIC_API_BASE_URL'') = Some u \<longrightarrow> API_BASE_URL_env env = u) \<and>
   (env (js ''NEXT_PUBLIC_API_BASE_URL'') = env' (js ''NEXT_PUBLIC_API_BASE_URL'') \<longrightarrow>
      API_BASE_URL_env env = API_BASE_URL_env env') \<and>
   map (\<lambda>r. baseURL (config r)) (requests (fst (contentApi_generate_env env gnet p f)))
     = [API_BASE_URL_env env]"
  by (simp add: API_BASE_URL_env_def analysisApi_analyze_def trendsApi_getTrends_def
        contentApi_generate_def contentApi_generate_env_def api_post_requests api_get_requests
        api_def api_env_def API_BASE_URL_def)

theorem C4_witness:
  "API_BASE_URL_env Map.empty = js ''http://localhost:8000'' \<and>
   API_BASE_URL_env (Map.empty (js ''NEXT_PUBLIC_API_BASE_URL'' \<mapsto> js ''https://api.example.com'',
                                js ''NODE_ENV'' \<mapsto> js ''production''))
     = js ''https://api.example.com'' \<and>
   API_BASE_URL_env (Map.empty (js ''NEXT_PUBLIC_API_BASE_URL'' \<mapsto> js ''https://api.example.com'',
                                js ''NODE_ENV'' \<mapsto> js ''production''))
     = API_BASE_URL_env (Map.empty (js ''NEXT_PUBLIC_API_BASE_URL'' \<mapsto> js ''https://api.example.com''))"
proof -
  let ?k = "js ''NEXT_PUBLIC_API_BASE_URL''"
  let ?u = "js ''https://api.example.com''"
  let ?e1 = "Map.empty (?k \<mapsto> ?u, js ''NODE_ENV'' \<mapsto> js ''production'')"
  let ?e0 = "Map.empty (?k \<mapsto> ?u)"
  have k: "js ''NODE_ENV'' \<noteq> ?k" by (simp add: js_def)
  have h0: "(Map.empty :: process_env) ?k = None" by simp
  have h1: "?e1 ?k = Some ?u" using k by simp
  have h2: "?e1 ?k = ?e0 ?k" using k by simp
  from C4_base_url [of _ _ _ _ _ _ "Map.empty" _ _] h0
  have w0: "API_BASE_URL_env Map.empty = js ''http://localhost:8000''" by blast
  from C4_base_url [of _ _ _ _ _ _ ?e1 ?u ?e0] h1 h2
  have w1: "API_BASE_URL_env ?e1 = ?u" and w2: "API_BASE_URL_env ?e1 = API_BASE_URL_env ?e0"
    by blast+
  from w0 w1 w2 show ?thesis by blast
qed

section \<open>Base64 round trip\<close>


lemma unat_code_unit: "k < 65536 \<Longrightarrow> unat (of_nat k :: 16 word) = k"
  by (simp add: unat_of_nat)

lemma b64_char_unat:
  "n < 64 \<Longrightarrow> unat (b64_char n) =
     (if n < 26 then 65 + n else if n < 52 then 97 + (n - 26) else if n < 62 then 48 + (n - 52)
      else if n = 62 then 43 else 47)"
  by (simp add: b64_char_def unat_code_unit del: of_nat_add of_nat_diff)

lemma b64_value_char: "n < 64 \<Longrightarrow> b64_value (b64_char n) = Some n"
  by (auto simp: b64_value_def b64_char_unat Let_def)

lemma b64_char_not_pad: "n < 64 \<Longrightarrow> b64_char n \<noteq> 61"
proof
  assume "n < 64" and "b64_char n = 61"
  then have "unat (b64_char n) = 61" by simp
  with \<open>n < 64\<close> show False by (simp add: b64_char_unat split: if_splits)
qed


lemma byte_bound: "unat (a :: 8 word) < 256"
  using unsigned_less [of a, where ?'a = nat] by simp

lemma byte_of_unat: "of_nat (unat (a :: 8 word)) = a"
  by simp

lemma div_mod_radix:
  fixes a b :: nat
  assumes "b < r"
  shows "(a * r + b) div r = a" and "(a * r + b) mod r = b"
  using assms by simp_all

lemma sextets_lt:
  fixes x y z :: nat
  assumes "x < 256" "y < 256" "z < 256"
  shows "x div 4 < 64" "(x mod 4) * 16 + y div 16 < 64" "(y mod 16) * 4 + z div 64 < 64"
    "z mod 64 < 64" "(y mod 16) * 4 < 64" "(x mod 4) * 16 < 64"
proof -
  have a: "x mod 4 < 4" "y mod 16 < 16" by simp_all
  from assms have b: "y div 16 < 16" "z div 64 < 4" "x div 4 < 64"
    by (simp_all add: div_less_iff_less_mult)
  from b show "x div 4 < 64" by simp
  from a b show "(x mod 4) * 16 + y div 16 < 64" by linarith
  from a b show "(y mod 16) * 4 + z div 64 < 64" by linarith
  show "z mod 64 < 64" by simp
  from a show "(y mod 16) * 4 < 64" by linarith
  from a show "(x mod 4) * 16 < 64" by linarith
qed

lemma regroup:
  fixes x y z :: nat
  assumes "x < 256" "y < 256" "z < 256"
  shows "x div 4 * 4 + ((x mod 4) * 16 + y div 16) div 16 = x"
    and "((x mod 4) * 16 + y div 16) mod 16 * 16 + ((y mod 16) * 4 + z div 64) div 4 = y"
    and "((y mod 16) * 4 + z div 64) mod 4 * 64 + z mod 64 = z"
    and "((x mod 4) * 16 + y div 16) mod 16 * 16 + ((y mod 16) * 4) div 4 = y"
    and "x div 4 * 4 + ((x mod 4) * 16) div 16 = x"
proof -
  from assms have b: "y div 16 < 16" "z div 64 < 4"
    by (simp_all add: div_less_iff_less_mult)
  have e1: "((x mod 4) * 16 + y div 16) div 16 = x mod 4"
    and e2: "((x mod 4) * 16 + y div 16) mod 16 = y div 16"
    using div_mod_radix [OF b(1), of "x mod 4"] by simp_all
  have e3: "((y mod 16) * 4 + z div 64) div 4 = y mod 16"
    and e4: "((y mod 16) * 4 + z div 64) mod 4 = z div 64"
    using div_mod_radix [OF b(2), of "y mod 16"] by simp_all
  show "x div 4 * 4 + ((x mod 4) * 16 + y div 16) div 16 = x"
    by (simp only: e1) simp
  show "((x mod 4) * 16 + y div 16) mod 16 * 16 + ((y mod 16) * 4 + z div 64) div 4 = y"
    by (simp only: e2 e3) simp
  show "((y mod 16) * 4 + z div 64) mod 4 * 64 + z mod 64 = z"
    by (simp only: e4) simp
  show "((x mod 4) * 16 + y div 16) mod 16 * 16 + ((y mod 16) * 4) div 4 = y"
    by (simp only: e2) simp
  show "x div 4 * 4 + ((x mod 4) * 16) div 16 = x"
    by simp
qed


lemma decode_group:
  assumes "b64_value p = Some x" "b64_value q = Some y" "b64_value r = Some z"
    "b64_value s = Some w" "r \<noteq> 61" "s \<noteq> 61"
  shows "base64_decode (p # q # r # s # rest) =
           map_option (\<lambda>bs. of_nat (x * 4 + y div 16) #
                               of_nat ((y mod 16) * 16 + z div 4) #
                               of_nat ((z mod 4) * 64 + w) # bs)
                      (base64_decode rest)"
  using assms by simp

lemma base64_roundtrip: "base64_decode (base64_encode bs) = Some bs"
proof (induction bs rule: base64_encode.induct)
  case (1 a b c rest)
  let ?x = "unat a" and ?y = "unat b" and ?z = "unat c"
  note bd = byte_bound [of a] byte_bound [of b] byte_bound [of c]
  note lt = sextets_lt [OF bd]
  note rg = regroup [OF bd]
  have "base64_decode (base64_encode (a # b # c # rest)) =
          base64_decode (b64_char (?x div 4) # b64_char ((?x mod 4) * 16 + ?y div 16) #
             b64_char ((?y mod 16) * 4 + ?z div 64) # b64_char (?z mod 64) #
             base64_encode rest)"
    by (simp add: Let_def)
  also have "\<dots> = map_option
        (\<lambda>bs. of_nat (?x div 4 * 4 + ((?x mod 4) * 16 + ?y div 16) div 16) #
              of_nat (((?x mod 4) * 16 + ?y div 16) mod 16 * 16 + ((?y mod 16) * 4 + ?z div 64) div 4) #
              of_nat (((?y mod 16) * 4 + ?z div 64) mod 4 * 64 + ?z mod 64) # bs)
        (base64_decode (base64_encode rest))"
    by (rule decode_group)
       (simp_all only: b64_value_char [OF lt(1)] b64_value_char [OF lt(2)]
          b64_value_char [OF lt(3)] b64_value_char [OF lt(4)]
          b64_char_not_pad [OF lt(3)] b64_char_not_pad [OF lt(4)] not_False_eq_True)
  also have "\<dots> = Some (a # b # c # rest)"
    by (simp only: rg "1.IH" byte_of_unat option.map)
  finally show ?case .
next
  case (2 a b)
  let ?x = "unat a" and ?y = "unat b"
  note bd = byte_bound [of a] byte_bound [of b] byte_bound [of 0]
  note lt = sextets_lt [OF bd]
  note rg = regroup [OF bd]
  have v: "b64_value (b64_char (?x div 4)) = Some (?x div 4)"
    "b64_value (b64_char ((?x mod 4) * 16 + ?y div 16)) = Some ((?x mod 4) * 16 + ?y div 16)"
    "b64_value (b64_char ((?y mod 16) * 4)) = Some ((?y mod 16) * 4)"
    "b64_char ((?y mod 16) * 4) \<noteq> 61"
    using lt by (simp_all add: b64_value_char b64_char_not_pad)
  have "base64_decode (base64_encode [a, b]) =
          Some [of_nat (?x div 4 * 4 + ((?x mod 4) * 16 + ?y div 16) div 16),
                of_nat (((?x mod 4) * 16 + ?y div 16) mod 16 * 16 + ((?y mod 16) * 4) div 4)]"
    by (simp add: Let_def v)
  also have "\<dots> = Some [a, b]"
    by (simp only: rg byte_of_unat)
  finally show ?case .
next
  case (3 a)
  let ?x = "unat a"
  note bd = byte_bound [of a] byte_bound [of 0] byte_bound [of 0]
  note lt = sextets_lt [OF bd]
  note rg = regroup [OF bd]
  have v: "b64_value (b64_char (?x div 4)) = Some (?x div 4)"
    "b64_value (b64_char ((?x mod 4) * 16)) = Some ((?x mod 4) * 16)"
    using lt by (simp_all add: b64_value_char)
  have "base64_decode (base64_encode [a]) =
          Some [of_nat (?x div 4 * 4 + ((?x mod 4) * 16) div 16)]"
    by (simp add: Let_def v)
  also have "\<dots> = Some [a]"
    by (simp only: rg byte_of_unat)
  finally show ?case .
next
  case 4
  show ?case by simp
qed


lemma decode_data_url_built:
  assumes "44 \<notin> set ty"
  shows "decode_data_url (js ''data:'' @ ty @ js '';base64,'' @ p) = base64_decode p"
proof -
  have all: "\<forall>c\<in>set ty. c \<noteq> 44" using assms by blast
  have m: "js '';base64,'' = js '';base64'' @ [44]" by (simp add: js_def)
  have t5: "take 5 (js ''data:'' @ ty @ js '';base64,'' @ p) = js ''data:''"
    and d5: "drop 5 (js ''data:'' @ ty @ js '';base64,'' @ p) = ty @ js '';base64,'' @ p"
    by (simp_all add: js_def)
  have tw: "takeWhile (\<lambda>c. c \<noteq> 44) (ty @ js '';base64,'' @ p) = ty @ js '';base64''"
    using all by (simp add: takeWhile_append2 js_def)
  have dw: "dropWhile (\<lambda>c. c \<noteq> 44) (ty @ js '';base64,'' @ p) = 44 # p"
    using all by (simp add: dropWhile_append2 js_def)
  have sf: "drop (length (ty @ js '';base64'') - 7) (ty @ js '';base64'') = js '';base64''"
    by (simp add: js_def)
  show ?thesis
    unfolding decode_data_url_def t5 d5 Let_def tw dw sf by simp
qed

lemma allowed_no_comma: "ty \<in> set allowedTypes \<Longrightarrow> 44 \<notin> set ty"
  by (auto simp: allowedTypes_def js_def)

text \<open>
  C9. For a file that passes both checks of the selection handler, the encoder resolves
  with the file's base64 data URL, and decoding that string gives back exactly the bytes
  of the file; the same holds for the file data in the request that the generate attempt
  issues when this file is the stored one.
\<close>

theorem C9_data_url_round_trip:
  assumes "accepted f"
  shows
    "(\<exists>d. fileToBase64 readAsDataURL f = ([ReadAsDataURL f], Resolved d) \<and>
          decode_data_url d = Some (file_bytes f)) \<and>
     (file s = Some f \<longrightarrow>
        (\<exists>r d. requests (fst (generate_attempt readAsDataURL net s)) = [r] \<and>
               payload r = Some (GenerateBody (prompt s) (Some d)) \<and>
               decode_data_url d = Some (file_bytes f)))"
proof -
  let ?d = "js ''data:'' @ file_type f @ js '';base64,'' @ base64_encode (file_bytes f)"
  from assms have "44 \<notin> set (file_type f)"
    by (simp add: accepted_def allowed_no_comma)
  then have dec: "decode_data_url ?d = Some (file_bytes f)"
    by (simp add: decode_data_url_built base64_roundtrip)
  have enc: "fileToBase64 readAsDataURL f = ([ReadAsDataURL f], Resolved ?d)"
    by (simp add: fileToBase64_def readAsDataURL_def)
  have req: "requests (fst (generate_attempt readAsDataURL net s)) =
               [\<lparr>config = api, verb = POST, url = js ''/api/v1/content/generate'',
                 payload = Some (GenerateBody (prompt s) (Some ?d))\<rparr>]"
    if "file s = Some f"
    using that
    by (simp add: generate_attempt_def enc await_def contentApi_generate_def api_post_def Let_def)
  from dec enc req show ?thesis by auto
qed

theorem C9_witness:
  "accepted csv_file \<and>
   fileToBase64 readAsDataURL csv_file =
     ([ReadAsDataURL csv_file], Resolved (js ''data:text/csv;base64,YSxi'')) \<and>
   decode_data_url (js ''data:text/csv;base64,YSxi'') = Some [0x61, 0x2C, 0x62]"
proof -
  have acc: "accepted csv_file"
    by (simp add: accepted_def csv_file_def allowedTypes_def js_def)
  have enc: "fileToBase64 readAsDataURL csv_file =
     ([ReadAsDataURL csv_file], Resolved (js ''data:text/csv;base64,YSxi''))"
    by (simp add: fileToBase64_def readAsDataURL_def csv_file_def js_def Let_def b64_char_def)
  have bytes: "file_bytes csv_file = [0x61, 0x2C, 0x62]"
    by (simp add: csv_file_def)
  from C9_data_url_round_trip [OF acc, of ContentGenerator_init "\<lambda>r. Pending"] enc
  have "decode_data_url (js ''data:text/csv;base64,YSxi'') = Some (file_bytes csv_file)"
    by auto
  with acc enc bytes show ?thesis by simp
qed

section \<open>The sentiment gauge\<close>


lemma render_analysis_after:
  "render_analysis (s\<lparr>sentiment := Some sc, sentimentLabel := Some label, isLoading := False\<rparr>) =
     (if label = [] then Placeholder
      else Shown \<lparr>badge_color = getSentimentColor (Some label),
                  bar_color =
                    (if label = js ''positive'' then js ''bg-green-500''
                     else if label = js ''negative'' then js ''bg-red-500''
                     else js ''bg-gray-500''),
                  bar_width = getSentimentProgress (Some sc)\<rparr>)"
  by (simp add: render_analysis_def truthy_def)

lemma progress_minus_one: "getSentimentProgress (Some (Fin (- 1))) = Fin 0"
  by (simp add: getSentimentProgress_def round64_def)

lemma progress_zero: "getSentimentProgress (Some (Fin 0)) = Fin 50"
  by code_simp

lemma progress_one: "getSentimentProgress (Some (Fin 1)) = Fin 100"
  by code_simp

lemma literal_08: "round64 (4 / 5) = Fin (3602879701896397 / 4503599627370496)"
  by code_simp

lemma progress_08: "getSentimentProgress (Some (round64 (4 / 5))) = Fin 90"
  by code_simp

lemma progress_exact:
  "is_double (x + 1) \<Longrightarrow> is_double ((x + 1) / 2) \<Longrightarrow> is_double ((x + 1) / 2 * 100) \<Longrightarrow>
   getSentimentProgress (Some (Fin x)) = Fin ((x + 1) / 2 * 100)"
  by (simp add: getSentimentProgress_def is_double_def)

lemma pow2_pos: "0 < pow2 e"
  by (simp add: pow2_def)


lemma pow2_powi: "pow2 e = 2 powi e"
  by (simp add: pow2_def power_int_def inverse_eq_divide power_one_over)

lemma pow2_add: "pow2 (a + b) = pow2 a * pow2 b"
  by (simp add: pow2_powi power_int_add)

lemma pow2_mono: "a \<le> b \<Longrightarrow> pow2 a \<le> pow2 b"
  by (simp add: pow2_powi power_int_increasing)

lemma pow2_strict_mono: "a < b \<Longrightarrow> pow2 a < pow2 b"
  by (simp add: pow2_powi power_int_strict_increasing)

lemma pow2_nat: "0 \<le> e \<Longrightarrow> pow2 e = 2 ^ nat e"
  by (simp add: pow2_def)

lemma pow2_numerals: "pow2 7 = 128" "pow2 8 = 256" "pow2 (- 45) = 1 / 2 ^ 45"
  "pow2 (- 1) = 1 / 2" "pow2 1 = 2"
  by (simp_all add: pow2_def)

lemma ilog2_bounds:
  assumes "0 < x"
  shows "pow2 (ilog2 x) \<le> x \<and> x < pow2 (ilog2 x + 1)"
proof -
  obtain p q where pq: "quotient_of x = (p, q)" by (cases "quotient_of x")
  then have q: "0 < q" by (rule quotient_of_denom_pos)
  from pq have x: "x = of_int p / of_int q" by (rule quotient_of_div)
  with assms q have p: "0 < p" by (simp add: zero_less_divide_iff)
  let ?bp = "bitlen p" and ?bq = "bitlen q"
  from p have bp1: "1 \<le> ?bp" by (simp add: bitlen_alt_def)
  from q have bq1: "1 \<le> ?bq" by (simp add: bitlen_alt_def)
  from bitlen_bounds [OF p] have "(2::int) ^ nat (?bp - 1) \<le> p" "p < 2 ^ nat ?bp" by simp_all
  then have "(of_int (2 ^ nat (?bp - 1)) :: rat) \<le> of_int p" "(of_int p :: rat) < of_int (2 ^ nat ?bp)"
    by (simp_all only: of_int_le_iff of_int_less_iff)
  with bp1 have P: "pow2 (?bp - 1) \<le> of_int p" "of_int p < pow2 ?bp"
    by (simp_all add: pow2_nat)
  from bitlen_bounds [OF q] have "(2::int) ^ nat (?bq - 1) \<le> q" "q < 2 ^ nat ?bq" by simp_all
  then have "(of_int (2 ^ nat (?bq - 1)) :: rat) \<le> of_int q" "(of_int q :: rat) < of_int (2 ^ nat ?bq)"
    by (simp_all only: of_int_le_iff of_int_less_iff)
  with bq1 have Q: "pow2 (?bq - 1) \<le> of_int q" "of_int q < pow2 ?bq"
    by (simp_all add: pow2_nat)
  let ?d = "?bp - ?bq"
  have qpos: "(0::rat) < of_int q" using q by simp
  have up: "x < pow2 (?d + 1)"
  proof -
    have "of_int p < pow2 (?d + 1) * pow2 (?bq - 1)"
      using P(2) by (simp add: pow2_add [symmetric])
    also have "\<dots> \<le> pow2 (?d + 1) * of_int q"
      using Q(1) pow2_pos [of "?d + 1"] by (simp add: mult_left_mono)
    finally show ?thesis using qpos by (simp add: x pos_divide_less_eq)
  qed
  have lo: "pow2 (?d - 1) \<le> x"
  proof -
    have "pow2 (?d - 1) * of_int q \<le> pow2 (?d - 1) * pow2 ?bq"
      using Q(2) pow2_pos [of "?d - 1"] by (simp add: mult_left_mono)
    also have "\<dots> = pow2 (?bp - 1)" by (simp add: pow2_add [symmetric])
    also have "\<dots> \<le> of_int p" by (rule P(1))
    finally show ?thesis using qpos by (simp add: x pos_le_divide_eq)
  qed
  show ?thesis
  proof (cases "pow2 ?d \<le> x")
    case True
    with pq have "ilog2 x = ?d" by (simp add: ilog2_def)
    with True up show ?thesis by simp
  next
    case False
    with pq have "ilog2 x = ?d - 1" by (simp add: ilog2_def)
    with False lo show ?thesis by simp
  qed
qed

lemma ilog2_less:
  assumes "0 < x" "x < pow2 k"
  shows "ilog2 x < k"
proof (rule ccontr)
  assume "\<not> ilog2 x < k"
  then have "pow2 k \<le> pow2 (ilog2 x)" by (simp add: pow2_mono)
  also have "\<dots> \<le> x" using ilog2_bounds [OF assms(1)] by simp
  finally show False using assms(2) by simp
qed

lemma round_even_error: "\<bar>of_int (round_even y) - y\<bar> \<le> 1 / 2"
proof -
  have "of_int \<lfloor>y\<rfloor> \<le> y" "y < of_int \<lfloor>y\<rfloor> + 1" by linarith+
  then show ?thesis
    by (auto simp: round_even_def Let_def abs_le_iff)
qed

lemma round_even_nonneg: "0 \<le> y \<Longrightarrow> 0 \<le> round_even y"
  by (auto simp: round_even_def Let_def)


lemma ilog2_zero: "ilog2 0 = - 2"
  by code_simp



lemma scaled_round_error:
  assumes "0 < u"
  shows "\<bar>of_int (round_even (a / u)) * u - a\<bar> \<le> u / 2"
proof -
  let ?m = "of_int (round_even (a / u)) :: rat"
  have "?m * u - a = (?m - a / u) * u"
    using assms by (simp add: left_diff_distrib)
  then have "\<bar>?m * u - a\<bar> = \<bar>?m - a / u\<bar> * u"
    using assms by (simp add: abs_mult)
  also have "\<dots> \<le> 1 / 2 * u"
    using round_even_error [of "a / u"] assms by (rule_tac mult_right_mono) simp_all
  finally show ?thesis by simp
qed

lemma round64_unfold:
  assumes "v \<noteq> 0"
    and "e = max (ilog2 \<bar>v\<bar> - 52) (- 1074)"
    and "r = of_int (round_even (\<bar>v\<bar> / pow2 e)) * pow2 e"
    and "\<not> 1024 \<le> ilog2 r"
  shows "round64 v = Fin (if 0 < v then r else - r)"
  unfolding round64_def Let_def assms(2) [symmetric] assms(3) [symmetric]
  using assms(1,4) by simp


lemma round64_small:
  assumes "\<bar>v\<bar> \<le> 128"
  shows "\<exists>r. round64 v = Fin r \<and> \<bar>r - v\<bar> \<le> 1 / 2 ^ 46"
proof (cases "v = 0")
  case True
  then show ?thesis by (simp add: round64_def)
next
  case False
  define a where "a = \<bar>v\<bar>"
  define e where "e = max (ilog2 a - 52) (- 1074)"
  define r where "r = of_int (round_even (a / pow2 e)) * pow2 e"
  from False have a: "0 < a" by (simp add: a_def)
  from assms have a128: "a \<le> 128" by (simp add: a_def)
  then have "a < pow2 8" by (simp add: pow2_numerals)
  with a have "ilog2 a < 8" by (rule ilog2_less)
  then have "e \<le> - 45" by (simp add: e_def)
  then have "pow2 e \<le> pow2 (- 45)" by (rule pow2_mono)
  then have ulp: "pow2 e \<le> 1 / 2 ^ 45" by (simp only: pow2_numerals)
  have ep: "0 < pow2 e" by (rule pow2_pos)
  have "\<bar>r - a\<bar> \<le> pow2 e / 2"
    unfolding r_def by (rule scaled_round_error [OF ep])
  also have "\<dots> \<le> (1 / 2 ^ 45) / 2" using ulp by (simp only: divide_right_mono zero_le_numeral)
  also have "\<dots> = 1 / 2 ^ 46" by simp
  finally have err: "\<bar>r - a\<bar> \<le> 1 / 2 ^ 46" .
  have "0 \<le> a / pow2 e" using ep a by simp
  then have "0 \<le> round_even (a / pow2 e)" by (rule round_even_nonneg)
  then have r0: "0 \<le> r" using ep by (simp add: r_def)
  have "r \<le> a + 1 / 2 ^ 46" using err by linarith
  also have "\<dots> < 256" using a128 by simp
  finally have rlt: "r < pow2 8" by (simp only: pow2_numerals)
  have noov: "\<not> 1024 \<le> ilog2 r"
  proof (cases "r = 0")
    case True
    then show ?thesis by (simp add: ilog2_zero)
  next
    case False
    with r0 have "0 < r" by simp
    from ilog2_less [OF this rlt] show ?thesis by simp
  qed
  have res: "round64 v = Fin (if 0 < v then r else - r)"
  proof (rule round64_unfold [of v e r])
    show "v \<noteq> 0" by (rule False)
    show "e = max (ilog2 \<bar>v\<bar> - 52) (- 1074)" by (simp only: e_def a_def)
    show "r = of_int (round_even (\<bar>v\<bar> / pow2 e)) * pow2 e" by (simp only: r_def a_def)
    show "\<not> 1024 \<le> ilog2 r" by (rule noov)
  qed
  have "\<bar>(if 0 < v then r else - r) - v\<bar> = \<bar>r - a\<bar>"
    using False unfolding a_def by (cases "0 < v") simp_all
  with err res show ?thesis by simp
qed


lemma abs_boundD:
  fixes a b c :: rat
  assumes "\<bar>a - b\<bar> \<le> c"
  shows "a \<le> b + c" "b - c \<le> a"
  using assms by linarith+

lemma progress_accuracy:
  assumes "- 1 \<le> x" "x \<le> 1"
  shows "\<exists>w. getSentimentProgress (Some (Fin x)) = Fin w \<and>
             \<bar>w - (x + 1) / 2 * 100\<bar> \<le> 1 / 2 ^ 38"
proof -
  define d :: rat where "d = 1 / 2 ^ 46"
  have d: "0 \<le> d" "d \<le> 1 / 64" by (simp_all add: d_def)
  from assms have "\<bar>x + 1\<bar> \<le> 128" by linarith
  from round64_small [OF this] obtain r1 where
    r1: "round64 (x + 1) = Fin r1" and e1: "\<bar>r1 - (x + 1)\<bar> \<le> d"
    unfolding d_def by blast
  note l1 = abs_boundD [OF e1]
  from l1 assms d have "r1 / 2 \<le> 128" "- 128 \<le> r1 / 2" by linarith+
  then have b1: "\<bar>r1 / 2\<bar> \<le> 128" by linarith
  from round64_small [OF this] obtain r2 where
    r2: "round64 (r1 / 2) = Fin r2" and e2: "\<bar>r2 - r1 / 2\<bar> \<le> d"
    unfolding d_def by blast
  note l2 = abs_boundD [OF e2]
  from l1 l2 assms d have "r2 * 100 \<le> 128" "- 128 \<le> r2 * 100" by linarith+
  then have b2: "\<bar>r2 * 100\<bar> \<le> 128" by linarith
  from round64_small [OF this] obtain r3 where
    r3: "round64 (r2 * 100) = Fin r3" and e3: "\<bar>r3 - r2 * 100\<bar> \<le> d"
    unfolding d_def by blast
  note l3 = abs_boundD [OF e3]
  have val: "getSentimentProgress (Some (Fin x)) = Fin r3"
    by (simp add: getSentimentProgress_def r1 r2 r3)
  have ex: "(x + 1) / 2 * 100 = 50 * x + 50" by simp
  from l1 have "50 * r1 \<le> 50 * x + 50 + 50 * d" "50 * x + 50 - 50 * d \<le> 50 * r1"
    by simp_all
  moreover from l2 have "100 * r2 \<le> 50 * r1 + 100 * d" "50 * r1 - 100 * d \<le> 100 * r2"
    by simp_all
  moreover from l3 have "r3 \<le> 100 * r2 + d" "100 * r2 - d \<le> r3"
    by (simp_all add: mult.commute)
  ultimately have "r3 \<le> 50 * x + 50 + 151 * d" "50 * x + 50 - 151 * d \<le> r3"
    by linarith+
  then have "\<bar>r3 - (x + 1) / 2 * 100\<bar> \<le> 151 * d"
    unfolding ex by linarith
  also have "\<dots> \<le> 1 / 2 ^ 38" by (simp add: d_def)
  finally show ?thesis using val by blast
qed

text \<open>
  C3. After a resolved \<^verbatim>\<open>analyze\<close> call with score \<open>s\<close> (and a non-empty label, without
  which no gauge is rendered), the width of the progress bar, in percent, is the value of
  \<^verbatim>\<open>((s + 1) / 2) * 100\<close> in the arithmetic of JavaScript numbers. For a score
  between -1 and 1 that value is within \<open>2\<^sup>-\<^sup>3\<^sup>8\<close> of the exact \<open>((s + 1) / 2) * 100\<close>; it
  is exactly that whenever the three intermediate results are binary64 values, and in
  particular it is 0 for \<open>s = -1\<close>, 50 for \<open>s = 0\<close>, 90 for the number written
  \<^verbatim>\<open>0.8\<close> and 100 for \<open>s = 1\<close>.
\<close>

theorem C3_progress_width:
  assumes "\<not> blank (content a)"
    and "snd (analysisApi_analyze net (content a)) = Resolved (AnalyzeResponse sc label)"
  shows
    "(label \<noteq> [] \<longrightarrow>
        (\<exists>g. render_analysis (fst (handleAnalyze net a)) = Shown g \<and>
             bar_width g = num_mul (num_div (num_add sc (Fin 1)) (Fin 2)) (Fin 100))) \<and>
     (\<forall>x. sc = Fin x \<and> - 1 \<le> x \<and> x \<le> 1 \<longrightarrow>
          (\<exists>w. getSentimentProgress (Some sc) = Fin w \<and>
               \<bar>w - (x + 1) / 2 * 100\<bar> \<le> 1 / 2 ^ 38)) \<and>
     (\<forall>x. sc = Fin x \<and> is_double (x + 1) \<and> is_double ((x + 1) / 2) \<and>
          is_double ((x + 1) / 2 * 100) \<longrightarrow>
          getSentimentProgress (Some sc) = Fin ((x + 1) / 2 * 100)) \<and>
     getSentimentProgress (Some (Fin (- 1))) = Fin 0 \<and>
     getSentimentProgress (Some (Fin 0)) = Fin 50 \<and>
     getSentimentProgress (Some (round64 (4 / 5))) = Fin 90 \<and>
     getSentimentProgress (Some (Fin 1)) = Fin 100"
proof -
  have "label \<noteq> [] \<longrightarrow>
        (\<exists>g. render_analysis (fst (handleAnalyze net a)) = Shown g \<and>
             bar_width g = num_mul (num_div (num_add sc (Fin 1)) (Fin 2)) (Fin 100))"
    by (simp add: handleAnalyze_resolved [OF assms] render_analysis_after
          getSentimentProgress_def)
  moreover have "\<forall>x. sc = Fin x \<and> - 1 \<le> x \<and> x \<le> 1 \<longrightarrow>
          (\<exists>w. getSentimentProgress (Some sc) = Fin w \<and>
               \<bar>w - (x + 1) / 2 * 100\<bar> \<le> 1 / 2 ^ 38)"
    using progress_accuracy by blast
  moreover have "\<forall>x. sc = Fin x \<and> is_double (x + 1) \<and> is_double ((x + 1) / 2) \<and>
          is_double ((x + 1) / 2 * 100) \<longrightarrow>
          getSentimentProgress (Some sc) = Fin ((x + 1) / 2 * 100)"
    using progress_exact by blast
  ultimately show ?thesis
    using progress_minus_one progress_zero progress_08 progress_one by blast
qed

theorem C3_witness:
  "\<not> blank (js ''Boost your fitness with our amazing new app!'') \<and>
   render_analysis (fst (handleAnalyze
       (\<lambda>r. Resolved (AnalyzeResponse (round64 (4 / 5)) (js ''positive'')))
       (SentimentAnalyzer_init\<lparr>content := js ''Boost your fitness with our amazing new app!''\<rparr>))) =
     Shown \<lparr>badge_color = js ''bg-green-500 text-white'', bar_color = js ''bg-green-500'',
            bar_width = Fin 90\<rparr>"
proof -
  let ?c = "js ''Boost your fitness with our amazing new app!''"
  let ?a = "SentimentAnalyzer_init\<lparr>content := ?c\<rparr>"
  let ?net = "\<lambda>r::request. Resolved (AnalyzeResponse (round64 (4 / 5)) (js ''positive''))"
  have nb: "\<not> blank ?c" by (simp add: blank_def js_def isWhiteSpace_def)
  then have nba: "\<not> blank (content ?a)" by simp
  have res: "snd (analysisApi_analyze ?net (content ?a)) =
               Resolved (AnalyzeResponse (round64 (4 / 5)) (js ''positive''))"
    by (simp add: analysisApi_analyze_def api_post_def)
  have ne: "js ''positive'' \<noteq> []" by (simp add: js_def)
  from C3_progress_width [OF nba res] ne
  obtain g where g: "render_analysis (fst (handleAnalyze ?net ?a)) = Shown g"
    and w: "bar_width g = num_mul (num_div (num_add (round64 (4 / 5)) (Fin 1)) (Fin 2)) (Fin 100)"
    and p: "getSentimentProgress (Some (round64 (4 / 5))) = Fin 90"
    by blast
  from w p have w90: "bar_width g = Fin 90" by (simp add: getSentimentProgress_def)
  have "render_analysis (fst (handleAnalyze ?net ?a)) =
          Shown \<lparr>badge_color = js ''bg-green-500 text-white'', bar_color = js ''bg-green-500'',
                 bar_width = getSentimentProgress (Some (round64 (4 / 5)))\<rparr>"
    by (simp add: handleAnalyze_resolved [OF nba res] render_analysis_after getSentimentColor_def ne)
  with g have "g = \<lparr>badge_color = js ''bg-green-500 text-white'', bar_color = js ''bg-green-500'',
                 bar_width = getSentimentProgress (Some (round64 (4 / 5)))\<rparr>"
    by simp
  with g w90 nb show ?thesis by simp
qed

end
